theory Spec2Isabelle
  imports Complex_Main
begin

section \<open>JavaScript values\<close>

text \<open>
  A JavaScript \<open>number\<close> is an IEEE 754 double: a real that the format represents, one of
  the two infinities, or \<open>NaN\<close>. The operations \<open>+\<close>, \<open>-\<close> and \<open>*\<close> compute the exact result
  and round it to the nearest double, ties to the even significand, as the program does;
  \<open>Math.floor\<close> of a double is a double and needs no rounding. The sign of zero is not
  represented: the program never divides, and \<open>-0\<close> and \<open>0\<close> agree under \<open>===\<close>, under
  truthiness and in every sum and product.

  Strings are lists of 8-bit characters, read as UTF-8 text. The words the program looks
  for (\<open>'var'\<close>, \<open>'/'\<close>, \<open>'-'\<close>, the header words, \<open>'TAX WITHHELD'\<close>) are ASCII. Two
  characters outside ASCII have an ASCII letter in their lower case: the Kelvin sign gives
  \<open>k\<close>, which is in none of these words, and the dotted capital I gives \<open>i\<close> followed by a
  combining dot, which is in none of them either. So case folding is the one of ASCII.
  White space is the white space of JavaScript, each character in its UTF-8 encoding.
\<close>

subsection \<open>Rounding to a double\<close>

text \<open>The nearest integer, a tie going to the even one.\<close>

definition roundHalfEven :: "real \<Rightarrow> int" where
  "roundHalfEven x =
     (if x - of_int \<lfloor>x\<rfloor> < 1 / 2 then \<lfloor>x\<rfloor>
      else if 1 / 2 < x - of_int \<lfloor>x\<rfloor> then \<lfloor>x\<rfloor> + 1
      else if even \<lfloor>x\<rfloor> then \<lfloor>x\<rfloor> else \<lfloor>x\<rfloor> + 1)"

text \<open>
  A double has a significand of 53 bits. A magnitude below \<open>2^53\<close> is doubled until it
  reaches \<open>2^52\<close>, rounded to an integer there and scaled back; it is doubled at most 1074
  times, which is where the subnormal doubles, with their fixed spacing of \<open>2^-1074\<close>,
  begin. A magnitude from \<open>2^53\<close> on is halved until it is below \<open>2^53\<close>; more than 971
  halvings, or a result of \<open>2^1024\<close>, is an overflow.
\<close>

fun roundSmall :: "nat \<Rightarrow> real \<Rightarrow> real" where
  "roundSmall 0 a = of_int (roundHalfEven a)"
| "roundSmall (Suc n) a =
     (if 2 ^ 52 \<le> a then of_int (roundHalfEven a) else roundSmall n (2 * a) / 2)"

fun roundLarge :: "nat \<Rightarrow> real \<Rightarrow> real option" where
  "roundLarge 0 a = None"
| "roundLarge (Suc n) a =
     (if a < 2 ^ 53 then Some (of_int (roundHalfEven a))
      else map_option (\<lambda>r. 2 * r) (roundLarge n (a / 2)))"

datatype number = Num real | Infinity bool | NaN

text \<open>\<open>Infinity True\<close> is \<open>+Infinity\<close>, \<open>Infinity False\<close> is \<open>-Infinity\<close>.\<close>

definition toDouble :: "real \<Rightarrow> number" where
  "toDouble x =
     (if x = 0 then Num 0
      else if \<bar>x\<bar> < 2 ^ 53 then Num (sgn x * roundSmall 1074 \<bar>x\<bar>)
      else (case roundLarge 972 \<bar>x\<bar> of
              None \<Rightarrow> Infinity (0 < x)
            | Some r \<Rightarrow> if 2 ^ 1024 \<le> r then Infinity (0 < x) else Num (sgn x * r)))"

subsection \<open>Arithmetic\<close>

instantiation number :: "{zero, plus, minus, times}"
begin

definition zero_number :: number where
  "zero_number = Num 0"

fun plus_number :: "number \<Rightarrow> number \<Rightarrow> number" where
  "plus_number (Num a) (Num b) = toDouble (a + b)"
| "plus_number (Num a) (Infinity s) = Infinity s"
| "plus_number (Infinity s) (Num b) = Infinity s"
| "plus_number (Infinity s) (Infinity s') = (if s = s' then Infinity s else NaN)"
| "plus_number _ _ = NaN"

fun minus_number :: "number \<Rightarrow> number \<Rightarrow> number" where
  "minus_number (Num a) (Num b) = toDouble (a - b)"
| "minus_number (Num a) (Infinity s) = Infinity (\<not> s)"
| "minus_number (Infinity s) (Num b) = Infinity s"
| "minus_number (Infinity s) (Infinity s') = (if s = s' then NaN else Infinity s)"
| "minus_number _ _ = NaN"

fun times_number :: "number \<Rightarrow> number \<Rightarrow> number" where
  "times_number (Num a) (Num b) = toDouble (a * b)"
| "times_number (Num a) (Infinity s) = (if a = 0 then NaN else Infinity (s = (0 < a)))"
| "times_number (Infinity s) (Num b) = (if b = 0 then NaN else Infinity (s = (0 < b)))"
| "times_number (Infinity s) (Infinity s') = Infinity (s = s')"
| "times_number _ _ = NaN"

instance ..

end

text \<open>\<open>Math.floor\<close>.\<close>

fun Math_floor :: "number \<Rightarrow> number" where
  "Math_floor (Num a) = Num (of_int \<lfloor>a\<rfloor>)"
| "Math_floor (Infinity s) = Infinity s"
| "Math_floor NaN = NaN"

text \<open>Truthiness of a number (\<open>if (x)\<close>): \<open>0\<close> and \<open>NaN\<close> are falsy.\<close>

fun truthy :: "number \<Rightarrow> bool" where
  "truthy (Num a) = (a \<noteq> 0)"
| "truthy (Infinity s) = True"
| "truthy NaN = False"

text \<open>Strict equality \<open>===\<close> on numbers: \<open>NaN\<close> equals nothing, itself included.\<close>

fun strict_eq :: "number \<Rightarrow> number \<Rightarrow> bool" where
  "strict_eq (Num a) (Num b) = (a = b)"
| "strict_eq (Infinity s) (Infinity s') = (s = s')"
| "strict_eq _ _ = False"

text \<open>The size of a finite number; it serves to bound sums.\<close>

fun magnitude :: "number \<Rightarrow> real" where
  "magnitude (Num a) = \<bar>a\<bar>"
| "magnitude _ = 0"

text \<open>Exceptions that escape a function.\<close>

datatype error = RangeError | TypeError

subsection \<open>String methods\<close>

definition lowerChar :: "char \<Rightarrow> char" where
  "lowerChar c =
     (case map_of (zip ''ABCDEFGHIJKLMNOPQRSTUVWXYZ'' ''abcdefghijklmnopqrstuvwxyz'') c of
        Some l \<Rightarrow> l
      | None \<Rightarrow> c)"

definition toLowerCase :: "string \<Rightarrow> string" where
  "toLowerCase s = map lowerChar s"

fun startsWith :: "string \<Rightarrow> string \<Rightarrow> bool" where
  "startsWith s [] = True"
| "startsWith [] (p # ps) = False"
| "startsWith (c # cs) (p # ps) = (c = p \<and> startsWith cs ps)"

fun str_includes :: "string \<Rightarrow> string \<Rightarrow> bool" where
  "str_includes [] pat = (pat = [])"
| "str_includes (c # cs) pat = (startsWith (c # cs) pat \<or> str_includes cs pat)"

text \<open>
  The white space of \<open>trim\<close> and of \<open>\\s\<close>: the characters U+0009 to U+000D, U+0020,
  U+00A0, U+1680, U+2000 to U+200A, U+2028, U+2029, U+202F, U+205F, U+3000 and U+FEFF, each
  as the bytes of its UTF-8 encoding.
\<close>

definition whiteSpaces :: "string list" where
  "whiteSpaces =
     [[CHR 0x09], [CHR 0x0A], [CHR 0x0B], [CHR 0x0C], [CHR 0x0D], [CHR 0x20],
      [CHR 0xC2, CHR 0xA0], [CHR 0xE1, CHR 0x9A, CHR 0x80],
      [CHR 0xE2, CHR 0x80, CHR 0x80], [CHR 0xE2, CHR 0x80, CHR 0x81],
      [CHR 0xE2, CHR 0x80, CHR 0x82], [CHR 0xE2, CHR 0x80, CHR 0x83],
      [CHR 0xE2, CHR 0x80, CHR 0x84], [CHR 0xE2, CHR 0x80, CHR 0x85],
      [CHR 0xE2, CHR 0x80, CHR 0x86], [CHR 0xE2, CHR 0x80, CHR 0x87],
      [CHR 0xE2, CHR 0x80, CHR 0x88], [CHR 0xE2, CHR 0x80, CHR 0x89],
      [CHR 0xE2, CHR 0x80, CHR 0x8A], [CHR 0xE2, CHR 0x80, CHR 0xA8],
      [CHR 0xE2, CHR 0x80, CHR 0xA9], [CHR 0xE2, CHR 0x80, CHR 0xAF],
      [CHR 0xE2, CHR 0x81, CHR 0x9F], [CHR 0xE3, CHR 0x80, CHR 0x80],
      [CHR 0xEF, CHR 0xBB, CHR 0xBF]]"

text \<open>One white space taken from the front, if there is one.\<close>

fun dropOneOf :: "string list \<Rightarrow> string \<Rightarrow> string option" where
  "dropOneOf [] s = None"
| "dropOneOf (w # ws) s = (if startsWith s w then Some (drop (length w) s) else dropOneOf ws s)"

text \<open>
  All white space taken from the front; a string of \<open>n\<close> characters begins with at most
  \<open>n\<close> white spaces.
\<close>

fun dropAllOf :: "string list \<Rightarrow> nat \<Rightarrow> string \<Rightarrow> string" where
  "dropAllOf ws 0 s = s"
| "dropAllOf ws (Suc n) s =
     (case dropOneOf ws s of
        None \<Rightarrow> s
      | Some r \<Rightarrow> dropAllOf ws n r)"

definition dropSpaces :: "string \<Rightarrow> string" where
  "dropSpaces s = dropAllOf whiteSpaces (length s) s"

text \<open>\<open>trim\<close>: the white space at the end is the reversed white space at the front of the
  reversed string.\<close>

definition trim :: "string \<Rightarrow> string" where
  "trim l = rev (dropAllOf (map rev whiteSpaces) (length l) (rev (dropSpaces l)))"

section \<open>External functions\<close>

text \<open>
  The program imports \<open>parse\<close>, \<open>parseISO\<close>, \<open>format\<close> and \<open>subDays\<close> from date-fns and
  uses the built-ins \<open>Date.getFullYear\<close>, \<open>parseFloat\<close> and \<open>String.localeCompare\<close>. They
  are parameters of the model, over any type \<open>'d\<close> of \<open>Date\<close> objects:
  \<^item> \<open>parse s\<close> is \<open>parse(s, 'MM/dd/yyyy', new Date())\<close> and \<open>parseISO s\<close> is \<open>parseISO(s)\<close>;
    \<open>None\<close> stands for a call that throws (the program catches it), and a returned date may
    be an Invalid Date, which is an object like any other;
  \<^item> \<open>format d\<close> is \<open>format(d, 'yyyy-MM-dd')\<close>, which throws on an Invalid Date;
  \<^item> \<open>subDays d n\<close> is \<open>subDays(d, n)\<close>.
\<close>

record 'd externs =
  parse :: "string \<Rightarrow> 'd option"
  parseISO :: "string \<Rightarrow> 'd option"
  format :: "'d \<Rightarrow> error + string"
  subDays :: "'d \<Rightarrow> nat \<Rightarrow> 'd"
  getFullYear :: "'d \<Rightarrow> number"
  parseFloat :: "string \<Rightarrow> number"
  localeCompare :: "string \<Rightarrow> string \<Rightarrow> int"

section \<open>Types\<close>

text \<open>
  A parsed CSV row is an object from column name to text; a column that the file does not
  have reads as \<open>undefined\<close>, here \<open>None\<close>. \<open>GainLossRow\<close> and \<open>HistoryRow\<close> are two
  views of such an object.
\<close>

type_synonym CsvRow = "string \<rightharpoonup> string"
type_synonym GainLossRow = CsvRow
type_synonym HistoryRow = CsvRow

type_synonym RatesMap = "string \<rightharpoonup> number"

section \<open>Utils\<close>

definition isDigit :: "char \<Rightarrow> bool" where
  "isDigit c = (c \<in> set ''0123456789'')"

definition keepMoneyChar :: "char \<Rightarrow> bool" where
  "keepMoneyChar c = (isDigit c \<or> c = CHR ''.'' \<or> c = CHR ''-'')"

definition parseMoney :: "'d externs \<Rightarrow> string option \<Rightarrow> number" where
  "parseMoney E str =
     (case str of
        None \<Rightarrow> 0
      | Some s \<Rightarrow> if s = [] then 0 else parseFloat E (filter keepMoneyChar s))"

definition parseDateAny :: "'d externs \<Rightarrow> string option \<Rightarrow> 'd option" where
  "parseDateAny E str =
     (case str of
        None \<Rightarrow> None
      | Some s \<Rightarrow>
          if s = [] \<or> str_includes (toLowerCase s) ''var'' then None
          else
            (case (if str_includes s ''/'' then parse E s else None) of
               Some d \<Rightarrow> Some d
             | None \<Rightarrow> if str_includes s ''-'' then parseISO E s else None))"

record RateResult =
  rate :: number
  dateUsed :: string

text \<open>
  The loop of \<open>getRateForDate\<close>, with its two variables \<open>current\<close> and \<open>attempts\<close>.
  \<open>rates[key]\<close> is tested for truthiness, so a stored \<open>0\<close> or \<open>NaN\<close> reads like a
  missing entry.
\<close>

function getRateLoop :: "'d externs \<Rightarrow> RatesMap \<Rightarrow> 'd \<Rightarrow> nat \<Rightarrow> error + RateResult" where
  "getRateLoop E rates current attempts =
     (if attempts < 10 then
        (case format E current of
           Inl e \<Rightarrow> Inl e
         | Inr key \<Rightarrow>
             (case rates key of
                None \<Rightarrow> getRateLoop E rates (subDays E current 1) (attempts + 1)
              | Some r \<Rightarrow>
                  if truthy r then Inr \<lparr>rate = r, dateUsed = key\<rparr>
                  else getRateLoop E rates (subDays E current 1) (attempts + 1)))
      else Inr \<lparr>rate = 0, dateUsed = ''N/A''\<rparr>)"
  by pat_completeness auto
termination
  by (relation "measure (\<lambda>(E, rates, current, attempts). 10 - attempts)") auto

declare getRateLoop.simps [simp del]

definition getRateForDate :: "'d externs \<Rightarrow> 'd \<Rightarrow> RatesMap \<Rightarrow> error + RateResult" where
  "getRateForDate E date rates = getRateLoop E rates date 0"

text \<open>The day \<open>j\<close> days before \<open>date\<close>, as the loop reaches it: \<open>subDays(_, 1)\<close> applied \<open>j\<close> times.\<close>

definition daysBefore :: "'d externs \<Rightarrow> 'd \<Rightarrow> nat \<Rightarrow> 'd" where
  "daysBefore E date j = ((\<lambda>d. subDays E d 1) ^^ j) date"

text \<open>
  The regular expression \<open>/TAX WITHHELD\\s+\\$?([0-9,.]+)/i\<close>: the leftmost position
  where the words match without regard to case, followed by at least one white space, an
  optional dollar sign and a non-empty run of digits, commas and dots, which is the
  captured group. No other split of the text can match where this one fails, so the
  greedy reading is the only one.
\<close>

definition isAmountChar :: "char \<Rightarrow> bool" where
  "isAmountChar c = (isDigit c \<or> c = CHR '','' \<or> c = CHR ''.'')"

definition matchTaxAt :: "string \<Rightarrow> string option" where
  "matchTaxAt s =
     (if startsWith (toLowerCase (take 12 s)) ''tax withheld'' then
        (let r1 = drop 12 s;
             r2 = dropSpaces r1;
             r3 = (case r2 of c # cs \<Rightarrow> if c = CHR ''$'' then cs else r2 | [] \<Rightarrow> r2);
             cap = takeWhile isAmountChar r3
         in if length r2 = length r1 \<or> cap = [] then None else Some cap)
      else None)"

fun matchTaxWithheld :: "string \<Rightarrow> string option" where
  "matchTaxWithheld [] = None"
| "matchTaxWithheld (c # cs) =
     (case matchTaxAt (c # cs) of
        Some cap \<Rightarrow> Some cap
      | None \<Rightarrow> matchTaxWithheld cs)"

text \<open>\<open>desc.match\<close> on an \<open>undefined\<close> description throws.\<close>

definition extractTaxFromDescription :: "'d externs \<Rightarrow> string option \<Rightarrow> error + number" where
  "extractTaxFromDescription E desc =
     (case desc of
        None \<Rightarrow> Inl TypeError
      | Some d \<Rightarrow>
          (case matchTaxWithheld d of
             Some cap \<Rightarrow> if cap \<noteq> [] then Inr (parseMoney E (Some cap)) else Inr 0
           | None \<Rightarrow> Inr 0))"

section \<open>Derived records\<close>

record 'd JpyTransaction =
  id :: nat
  symbol :: "string option"
  quantity :: number
  dateAcquired :: "'d option"
  dateSold :: 'd
  proceedsUsd :: number
  costUsd :: number
  wsDisallowed :: number
  rateAcquired :: number
  rateSold :: number
  proceedsJpy :: number
  costJpy :: number
  gainLossJpy :: number
  isWashSale :: bool
  "notes" :: string

record 'd DividendTransaction =
  id :: nat
  symbol :: "string option"
  date :: 'd
  amountNetUsd :: number
  taxUsd :: number
  amountGrossUsd :: number
  rate :: number
  amountGrossJpy :: number
  taxJpy :: number
  amountNetJpy :: number
  description :: "string option"

record 'd InterestTransaction =
  id :: nat
  symbol :: "string option"
  date :: 'd
  amountNetUsd :: number
  rate :: number
  amountNetJpy :: number
  description :: "string option"

section \<open>Transaction calculators\<close>

text \<open>
  \<open>rows.map((row, idx) => ...)\<close>, where the callback may throw: the rows are visited in
  order with their index, and the first exception ends the whole call.
\<close>

fun mapIdx :: "('a \<Rightarrow> nat \<Rightarrow> error + 'b) \<Rightarrow> 'a list \<Rightarrow> nat \<Rightarrow> error + 'b list" where
  "mapIdx f [] idx = Inr []"
| "mapIdx f (row # rows) idx =
     (case f row idx of
        Inl e \<Rightarrow> Inl e
      | Inr y \<Rightarrow>
          (case mapIdx f rows (idx + 1) of
             Inl e \<Rightarrow> Inl e
           | Inr ys \<Rightarrow> Inr (y # ys)))"

text \<open>\<open>.filter(Boolean)\<close> on a list of records and \<open>null\<close>s.\<close>

fun filterBoolean :: "'a option list \<Rightarrow> 'a list" where
  "filterBoolean [] = []"
| "filterBoolean (None # xs) = filterBoolean xs"
| "filterBoolean (Some x # xs) = x # filterBoolean xs"

text \<open>ToString of a field that may be \<open>undefined\<close>, as \<open>parseFloat\<close> applies it.\<close>

definition toString :: "string option \<Rightarrow> string" where
  "toString v = (case v of None \<Rightarrow> ''undefined'' | Some s \<Rightarrow> s)"

text \<open>
  The two notes of a capital-gains record, which the source writes in Japanese: "acquisition
  date unknown (Various)" and "rate error". They are given by their UTF-8 bytes.
\<close>

definition noteVarious :: string where
  "noteVarious = map char_of [0xE5, 0x8F, 0x96, 0xE5, 0xBE, 0x97, 0xE6, 0x97, 0xA5, 0xE4, 0xB8,
     0x8D, 0xE6, 0x98, 0x8E :: nat] @ ''(Various)''"

definition noteRateError :: string where
  "noteRateError = map char_of [0xE3, 0x83, 0xAC, 0xE3, 0x83, 0xBC, 0xE3, 0x83, 0x88, 0xE3, 0x82,
     0xA8, 0xE3, 0x83, 0xA9, 0xE3, 0x83, 0xBC :: nat]"

text \<open>The callback of \<open>calculateGainLoss\<close>; \<open>None\<close> is its \<open>null\<close>.\<close>

definition gainLossOfRow ::
  "'d externs \<Rightarrow> RatesMap \<Rightarrow> GainLossRow \<Rightarrow> nat \<Rightarrow> error + 'd JpyTransaction option" where
  "gainLossOfRow E currentRates row idx =
     (case parseDateAny E (row ''Date Sold'') of
        None \<Rightarrow> Inr None
      | Some dateSold' \<Rightarrow>
          (let dateAcquired0 = parseDateAny E (row ''Date Acquired'');
               isVarious =
                 (case dateAcquired0 of
                    Some d \<Rightarrow> False
                  | None \<Rightarrow>
                      (case row ''Date Acquired'' of
                         None \<Rightarrow> False
                       | Some s \<Rightarrow> str_includes (toLowerCase s) ''var''));
               dateAcquired' = (case dateAcquired0 of None \<Rightarrow> dateSold' | Some d \<Rightarrow> d);
               proceedsUsd' = parseMoney E (row ''Sales Proceeds'');
               costUsd' = parseMoney E (row ''Adjust Cost'');
               wsDisallowed' = parseMoney E (row ''WS Loss Disallowed'')
           in case getRateForDate E dateSold' currentRates of
                Inl e \<Rightarrow> Inl e
              | Inr rateSoldData \<Rightarrow>
                  (case getRateForDate E dateAcquired' currentRates of
                     Inl e \<Rightarrow> Inl e
                   | Inr rateAcqData \<Rightarrow>
                       (let proceedsJpy' = Math_floor (proceedsUsd' * RateResult.rate rateSoldData);
                            costJpy' = Math_floor (costUsd' * RateResult.rate rateAcqData)
                        in Inr (Some
                             \<lparr>JpyTransaction.id = idx,
                              JpyTransaction.symbol = row ''Symbol'',
                              quantity = parseFloat E (toString (row ''Quantity'')),
                              dateAcquired = Some dateAcquired',
                              dateSold = dateSold',
                              proceedsUsd = proceedsUsd',
                              costUsd = costUsd',
                              wsDisallowed = wsDisallowed',
                              rateAcquired = RateResult.rate rateAcqData,
                              rateSold = RateResult.rate rateSoldData,
                              proceedsJpy = proceedsJpy',
                              costJpy = costJpy',
                              gainLossJpy = proceedsJpy' - costJpy',
                              isWashSale = (row ''Wash Sales'' = Some ''YES''),
                              notes =
                                (if isVarious then noteVarious
                                 else if strict_eq (RateResult.rate rateSoldData) 0
                                   then noteRateError else [])\<rparr>)))))"

text \<open>
  \<open>calculateGainLoss\<close> computes the list \<open>calculated\<close>, which the source then stores with
  \<open>setGainLossData\<close>; the store is written where the function is called.
\<close>

definition calculateGainLoss ::
  "'d externs \<Rightarrow> GainLossRow list \<Rightarrow> RatesMap \<Rightarrow> error + 'd JpyTransaction list" where
  "calculateGainLoss E rows currentRates =
     (case mapIdx (gainLossOfRow E currentRates) rows 0 of
        Inl e \<Rightarrow> Inl e
      | Inr calculated \<Rightarrow> Inr (filterBoolean calculated))"

definition dividendOfRow ::
  "'d externs \<Rightarrow> RatesMap \<Rightarrow> HistoryRow \<Rightarrow> nat \<Rightarrow> error + 'd DividendTransaction option" where
  "dividendOfRow E currentRates row idx =
     (case parseDateAny E (row ''TradeDate'') of
        None \<Rightarrow> Inr None
      | Some date' \<Rightarrow>
          (let amountNetUsd' = parseMoney E (row ''Amount'')
           in case extractTaxFromDescription E (row ''Description'') of
                Inl e \<Rightarrow> Inl e
              | Inr taxUsd' \<Rightarrow>
                  (let amountGrossUsd' = amountNetUsd' + taxUsd'
                   in case getRateForDate E date' currentRates of
                        Inl e \<Rightarrow> Inl e
                      | Inr rateData \<Rightarrow>
                          Inr (Some
                            \<lparr>DividendTransaction.id = idx,
                             DividendTransaction.symbol = row ''Symbol'',
                             DividendTransaction.date = date',
                             DividendTransaction.amountNetUsd = amountNetUsd',
                             taxUsd = taxUsd',
                             amountGrossUsd = amountGrossUsd',
                             DividendTransaction.rate = RateResult.rate rateData,
                             amountGrossJpy = Math_floor (amountGrossUsd' * RateResult.rate rateData),
                             taxJpy = Math_floor (taxUsd' * RateResult.rate rateData),
                             DividendTransaction.amountNetJpy =
                               Math_floor (amountNetUsd' * RateResult.rate rateData),
                             DividendTransaction.description = row ''Description''\<rparr>))))"

definition calculateDividends ::
  "'d externs \<Rightarrow> HistoryRow list \<Rightarrow> RatesMap \<Rightarrow> error + 'd DividendTransaction list" where
  "calculateDividends E rows currentRates =
     (case mapIdx (dividendOfRow E currentRates) rows 0 of
        Inl e \<Rightarrow> Inl e
      | Inr calculated \<Rightarrow> Inr (filterBoolean calculated))"

definition interestOfRow ::
  "'d externs \<Rightarrow> RatesMap \<Rightarrow> HistoryRow \<Rightarrow> nat \<Rightarrow> error + 'd InterestTransaction option" where
  "interestOfRow E currentRates row idx =
     (case parseDateAny E (row ''TradeDate'') of
        None \<Rightarrow> Inr None
      | Some date' \<Rightarrow>
          (let amountNetUsd' = parseMoney E (row ''Amount'')
           in case getRateForDate E date' currentRates of
                Inl e \<Rightarrow> Inl e
              | Inr rateData \<Rightarrow>
                  Inr (Some
                    \<lparr>InterestTransaction.id = idx,
                     InterestTransaction.symbol = row ''Symbol'',
                     InterestTransaction.date = date',
                     InterestTransaction.amountNetUsd = amountNetUsd',
                     InterestTransaction.rate = RateResult.rate rateData,
                     InterestTransaction.amountNetJpy =
                       Math_floor (amountNetUsd' * RateResult.rate rateData),
                     InterestTransaction.description = row ''Description''\<rparr>)))"

definition calculateInterests ::
  "'d externs \<Rightarrow> HistoryRow list \<Rightarrow> RatesMap \<Rightarrow> error + 'd InterestTransaction list" where
  "calculateInterests E rows currentRates =
     (case mapIdx (interestOfRow E currentRates) rows 0 of
        Inl e \<Rightarrow> Inl e
      | Inr calculated \<Rightarrow> Inr (filterBoolean calculated))"

section \<open>Application state\<close>

datatype Tab = capital | dividend | interest

datatype FileType = GAIN_LOSS | HISTORY | UNKNOWN

text \<open>
  The messages that \<open>setError\<close> receives, which the source writes in Japanese: the file is
  empty; no header line (Symbol) was found; no valid Gain/Loss rows; no dividend rows
  (Action=Dividend); neither dividends nor interest in the file; unknown CSV format; a
  parse error with its text.
\<close>

datatype Message =
    FileEmpty
  | HeaderNotFound
  | NoValidGainLoss
  | NoDividendRows
  | NoDividendNorInterest
  | UnknownFormat
  | ParseFailed string

record 'd AppState =
  activeTab :: Tab
  gainLossData :: "'d JpyTransaction list"
  dividendData :: "'d DividendTransaction list"
  interestData :: "'d InterestTransaction list"
  gainLossRaw :: "GainLossRow list option"
  dividendRaw :: "HistoryRow list option"
  interestRaw :: "HistoryRow list option"
  rates :: RatesMap
  loading :: bool
  fetchingRates :: bool
  error :: "Message option"
  selectedYear :: number
  expandedTicker :: "string option"
  isDragging :: bool

definition setSelectedYear :: "number \<Rightarrow> 'd AppState \<Rightarrow> 'd AppState" where
  "setSelectedYear y s = s\<lparr>selectedYear := y\<rparr>"

text \<open>
  The state of a fresh component, as the \<open>useState\<close> calls give it; \<open>currentYear\<close> stands
  for \<open>new Date().getFullYear()\<close>.
\<close>

definition initialState :: "number \<Rightarrow> 'd AppState" where
  "initialState currentYear =
     \<lparr>activeTab = capital, gainLossData = [], dividendData = [], interestData = [],
      gainLossRaw = None, dividendRaw = None, interestRaw = None, rates = Map.empty,
      loading = False, fetchingRates = False, error = None, selectedYear = currentYear,
      expandedTicker = None, isDragging = False\<rparr>"

section \<open>Filtering and aggregation\<close>

definition filteredGainLoss :: "'d externs \<Rightarrow> 'd AppState \<Rightarrow> 'd JpyTransaction list" where
  "filteredGainLoss E s =
     filter (\<lambda>t. strict_eq (getFullYear E (dateSold t)) (selectedYear s)) (gainLossData s)"

definition filteredDividends :: "'d externs \<Rightarrow> 'd AppState \<Rightarrow> 'd DividendTransaction list" where
  "filteredDividends E s =
     filter (\<lambda>t. strict_eq (getFullYear E (DividendTransaction.date t)) (selectedYear s))
       (dividendData s)"

definition filteredInterests :: "'d externs \<Rightarrow> 'd AppState \<Rightarrow> 'd InterestTransaction list" where
  "filteredInterests E s =
     filter (\<lambda>t. strict_eq (getFullYear E (InterestTransaction.date t)) (selectedYear s))
       (interestData s)"

record Summary =
  proceeds :: number
  cost :: number
  gainLoss :: number
  proceedsUsd :: number
  costUsd :: number
  gainLossUsd :: number

record 'd Group =
  summary :: Summary
  transactions :: "'d JpyTransaction list"

text \<open>
  The object \<open>groups\<close> is a list of its own properties in the order of their creation. A
  symbol that is \<open>undefined\<close> names the property \<open>'undefined'\<close>. A symbol that names a
  property of \<open>Object.prototype\<close> reads as that inherited value, which is truthy and has
  no \<open>transactions\<close>, so that \<open>push\<close> throws.
\<close>

definition objectPrototypeKeys :: "string list" where
  "objectPrototypeKeys =
     [''constructor'', ''__defineGetter__'', ''__defineSetter__'', ''hasOwnProperty'',
      ''__lookupGetter__'', ''__lookupSetter__'', ''isPrototypeOf'', ''propertyIsEnumerable'',
      ''toString'', ''valueOf'', ''__proto__'', ''toLocaleString'']"

fun setProperty :: "string \<Rightarrow> 'v \<Rightarrow> (string \<times> 'v) list \<Rightarrow> (string \<times> 'v) list" where
  "setProperty k v [] = [(k, v)]"
| "setProperty k v ((k', v') # kvs) =
     (if k = k' then (k, v) # kvs else (k', v') # setProperty k v kvs)"

definition addToGroup ::
  "'d JpyTransaction \<Rightarrow> (string \<times> 'd Group) list \<Rightarrow> error + (string \<times> 'd Group) list" where
  "addToGroup t groups =
     (let key = toString (JpyTransaction.symbol t)
      in if key \<in> set objectPrototypeKeys then Inl TypeError
         else
           (let g = (case map_of groups key of
                       None \<Rightarrow>
                         \<lparr>summary = \<lparr>proceeds = 0, cost = 0, gainLoss = 0, proceedsUsd = 0,
                            costUsd = 0, gainLossUsd = 0\<rparr>, transactions = []\<rparr>
                     | Some g \<Rightarrow> g);
                sm = summary g
            in Inr (setProperty key
                 \<lparr>summary =
                    \<lparr>proceeds = proceeds sm + proceedsJpy t,
                     cost = cost sm + costJpy t,
                     gainLoss = gainLoss sm + gainLossJpy t,
                     proceedsUsd = proceedsUsd sm + JpyTransaction.proceedsUsd t,
                     costUsd = costUsd sm + JpyTransaction.costUsd t,
                     gainLossUsd =
                       gainLossUsd sm + (JpyTransaction.proceedsUsd t - JpyTransaction.costUsd t)\<rparr>,
                  transactions = transactions g @ [t]\<rparr> groups)))"

fun forEachGroup ::
  "'d JpyTransaction list \<Rightarrow> (string \<times> 'd Group) list \<Rightarrow> error + (string \<times> 'd Group) list" where
  "forEachGroup [] groups = Inr groups"
| "forEachGroup (t # ts) groups =
     (case addToGroup t groups of
        Inl e \<Rightarrow> Inl e
      | Inr groups' \<Rightarrow> forEachGroup ts groups')"

text \<open>
  \<open>Array.prototype.sort\<close> with the comparator \<open>(a, b) => a[0].localeCompare(b[0])\<close>: a
  stable sort, written as insertion from the right.
\<close>

fun insertEntry :: "(string \<Rightarrow> string \<Rightarrow> int) \<Rightarrow> string \<times> 'v \<Rightarrow> (string \<times> 'v) list \<Rightarrow> (string \<times> 'v) list" where
  "insertEntry cmp x [] = [x]"
| "insertEntry cmp x (y # ys) =
     (if cmp (fst x) (fst y) \<le> 0 then x # y # ys else y # insertEntry cmp x ys)"

definition sortEntries :: "(string \<Rightarrow> string \<Rightarrow> int) \<Rightarrow> (string \<times> 'v) list \<Rightarrow> (string \<times> 'v) list" where
  "sortEntries cmp entries = foldr (insertEntry cmp) entries []"

definition groupedGainLoss :: "'d externs \<Rightarrow> 'd AppState \<Rightarrow> error + (string \<times> 'd Group) list" where
  "groupedGainLoss E s =
     (case forEachGroup (filteredGainLoss E s) [] of
        Inl e \<Rightarrow> Inl e
      | Inr groups \<Rightarrow> Inr (sortEntries (localeCompare E) groups))"

record Totals = Summary +
  wsDisallowed :: number
  count :: nat

definition totalsGainLoss :: "'d externs \<Rightarrow> 'd AppState \<Rightarrow> Totals" where
  "totalsGainLoss E s =
     foldl (\<lambda>acc t.
         \<lparr>proceeds = proceeds acc + proceedsJpy t,
          cost = cost acc + costJpy t,
          gainLoss = gainLoss acc + gainLossJpy t,
          proceedsUsd = proceedsUsd acc + JpyTransaction.proceedsUsd t,
          costUsd = costUsd acc + JpyTransaction.costUsd t,
          gainLossUsd = gainLossUsd acc + (JpyTransaction.proceedsUsd t - JpyTransaction.costUsd t),
          wsDisallowed = wsDisallowed acc + JpyTransaction.wsDisallowed t,
          count = count acc + 1\<rparr>)
       \<lparr>proceeds = 0, cost = 0, gainLoss = 0, proceedsUsd = 0, costUsd = 0, gainLossUsd = 0,
        wsDisallowed = 0, count = 0\<rparr>
       (filteredGainLoss E s)"

section \<open>File processing\<close>

text \<open>\<open>text.split('\\n')\<close>, \<open>findIndex\<close> (\<open>None\<close> is its \<open>-1\<close>) and \<open>join('\\n')\<close>.\<close>

fun splitNewline :: "string \<Rightarrow> string list" where
  "splitNewline [] = [[]]"
| "splitNewline (c # cs) =
     (if c = CHR 0x0A then [] # splitNewline cs
      else (case splitNewline cs of
              l # ls \<Rightarrow> (c # l) # ls
            | [] \<Rightarrow> [[c]]))"

fun findIndex :: "('a \<Rightarrow> bool) \<Rightarrow> 'a list \<Rightarrow> nat option" where
  "findIndex P [] = None"
| "findIndex P (x # xs) =
     (if P x then Some 0 else (case findIndex P xs of None \<Rightarrow> None | Some i \<Rightarrow> Some (i + 1)))"

fun joinNewline :: "string list \<Rightarrow> string" where
  "joinNewline [] = []"
| "joinNewline [l] = l"
| "joinNewline (l # ls) = l @ [CHR 0x0A] @ joinNewline ls"

definition isHeaderLine :: "string \<Rightarrow> bool" where
  "isHeaderLine line =
     (let lower = toLowerCase line
      in startsWith lower ''symbol'' \<or> startsWith lower (CHR 0x22 # ''symbol'' @ [CHR 0x22]))"

text \<open>The file type that \<open>processFile\<close> reads off the lower-cased header line.\<close>

definition fileTypeOfHeader :: "string \<Rightarrow> FileType" where
  "fileTypeOfHeader headerLine =
     (if str_includes headerLine ''sales proceeds'' then GAIN_LOSS
      else if str_includes headerLine ''action'' \<and> str_includes headerLine ''amount'' then HISTORY
      else UNKNOWN)"

text \<open>Truthiness of a field: \<open>undefined\<close> and the empty string are falsy.\<close>

definition truthyStr :: "string option \<Rightarrow> bool" where
  "truthyStr v = (case v of None \<Rightarrow> False | Some s \<Rightarrow> s \<noteq> [])"

text \<open>
  The \<open>complete\<close> callback that \<open>processFile\<close> hands to \<open>Papa.parse\<close>, on the rows
  \<open>results.data\<close>. The rate table is the one of the state in which \<open>processFile\<close> was
  called. A calculator that throws ends the callback: \<open>Inl\<close> carries the exception and the
  state with the updates made before it.
\<close>

definition parseComplete ::
  "'d externs \<Rightarrow> FileType \<Rightarrow> CsvRow list \<Rightarrow> 'd AppState \<Rightarrow> (error \<times> 'd AppState) + 'd AppState" where
  "parseComplete E fileType data s =
     (case fileType of
        GAIN_LOSS \<Rightarrow>
          (let rows = filter (\<lambda>r. truthyStr (r ''Symbol'')
                                 \<and> \<not> startsWith (toString (r ''Symbol'')) ''Total'') data
           in if rows = [] then Inr (s\<lparr>error := Some NoValidGainLoss, loading := False\<rparr>)
              else
                (let s1 = s\<lparr>gainLossRaw := Some rows, activeTab := capital\<rparr>
                 in if dom (rates s) \<noteq> {} then
                      (case calculateGainLoss E rows (rates s) of
                         Inl e \<Rightarrow> Inl (e, s1)
                       | Inr calculated \<Rightarrow> Inr (s1\<lparr>gainLossData := calculated, loading := False\<rparr>))
                    else Inr (s1\<lparr>loading := False\<rparr>)))
      | HISTORY \<Rightarrow>
          (let rows = filter (\<lambda>r. r ''Action'' = Some ''Dividend'') data
           in if rows = [] then Inr (s\<lparr>error := Some NoDividendRows, loading := False\<rparr>)
              else
                (let s1 = s\<lparr>dividendRaw := Some rows, activeTab := dividend\<rparr>;
                     interestRows = filter (\<lambda>r. r ''Action'' = Some ''Interest'') data;
                     s2 = (if interestRows \<noteq> [] then s1\<lparr>interestRaw := Some interestRows\<rparr> else s1)
                 in if dom (rates s) \<noteq> {} then
                      (case calculateDividends E rows (rates s) of
                         Inl e \<Rightarrow> Inl (e, s2)
                       | Inr divs \<Rightarrow>
                           (let s3 = s2\<lparr>dividendData := divs\<rparr>
                            in if interestRows \<noteq> [] then
                                 (case calculateInterests E interestRows (rates s) of
                                    Inl e \<Rightarrow> Inl (e, s3)
                                  | Inr ints \<Rightarrow> Inr (s3\<lparr>interestData := ints, loading := False\<rparr>))
                               else Inr (s3\<lparr>loading := False\<rparr>)))
                    else Inr (s2\<lparr>loading := False\<rparr>)))
      | UNKNOWN \<Rightarrow>
          (let firstRow = (case data of [] \<Rightarrow> None | r # _ \<Rightarrow> Some r)
           in if (case firstRow of None \<Rightarrow> False | Some r \<Rightarrow> truthyStr (r ''Sales Proceeds'')) then
                Inr (s\<lparr>gainLossRaw := Some (filter (\<lambda>r. truthyStr (r ''Symbol'')) data),
                        activeTab := capital, loading := False\<rparr>)
              else if (case firstRow of None \<Rightarrow> False | Some r \<Rightarrow> truthyStr (r ''Action'')) then
                (let divRows = filter (\<lambda>r. r ''Action'' = Some ''Dividend'') data;
                     intRows = filter (\<lambda>r. r ''Action'' = Some ''Interest'') data
                 in if divRows = [] \<and> intRows = [] then
                      Inr (s\<lparr>error := Some NoDividendNorInterest, loading := False\<rparr>)
                    else
                      (let s1 = (if divRows \<noteq> []
                                 then s\<lparr>dividendRaw := Some divRows, activeTab := dividend\<rparr> else s);
                           s2 = (if intRows \<noteq> []
                                 then (let s' = s1\<lparr>interestRaw := Some intRows\<rparr>
                                       in if divRows = [] then s'\<lparr>activeTab := interest\<rparr> else s')
                                 else s1)
                       in Inr (s2\<lparr>loading := False\<rparr>)))
              else Inr (s\<lparr>error := Some UnknownFormat, loading := False\<rparr>)))"

text \<open>
  \<open>processFile\<close> on the text that the reader delivers. \<open>Papa.parse\<close> is a parameter: it
  turns the CSV text into rows, or reports an error with its message.
\<close>

definition fileLines :: "string \<Rightarrow> string list" where
  "fileLines text = filter (\<lambda>l. l \<noteq> []) (map trim (splitNewline text))"

definition processFile ::
  "'d externs \<Rightarrow> (string \<Rightarrow> string + CsvRow list) \<Rightarrow> string \<Rightarrow> 'd AppState
     \<Rightarrow> (error \<times> 'd AppState) + 'd AppState" where
  "processFile E papaParse text s =
     (if text = [] then Inr (s\<lparr>error := Some FileEmpty, loading := False\<rparr>)
      else
        (let lines = fileLines text
         in case findIndex isHeaderLine lines of
              None \<Rightarrow> Inr (s\<lparr>error := Some HeaderNotFound, loading := False\<rparr>)
            | Some headerIndex \<Rightarrow>
                (let headerLine = toLowerCase (lines ! headerIndex);
                     fileType = fileTypeOfHeader headerLine;
                     cleanCsv = joinNewline (drop headerIndex lines)
                 in case papaParse cleanCsv of
                      Inl msg \<Rightarrow> Inr (s\<lparr>error := Some (ParseFailed msg), loading := False\<rparr>)
                    | Inr data \<Rightarrow> parseComplete E fileType data s)))"

section \<open>An instance of the external functions\<close>

text \<open>
  For evaluation on concrete files the external functions are instantiated. A \<open>Date\<close> is
  its local calendar day (year, month, day of the Gregorian calendar) or the Invalid Date;
  the time of day plays no part in \<open>format(_, 'yyyy-MM-dd')\<close>, \<open>subDays\<close> and
  \<open>getFullYear\<close>. The instance reads dates written with all their digits
  (\<open>MM/dd/yyyy\<close>, \<open>yyyy-MM-dd\<close>), decimal numbers without exponent, and CSV text without
  quotes; it compares strings by character code, which is the order of \<open>localeCompare\<close>
  on upper-case ticker symbols. It is used at such inputs only.
\<close>

datatype CalDate = Date int nat nat | InvalidDate

definition leapYear :: "int \<Rightarrow> bool" where
  "leapYear y = (y mod 4 = 0 \<and> (y mod 100 \<noteq> 0 \<or> y mod 400 = 0))"

definition daysInMonth :: "int \<Rightarrow> nat \<Rightarrow> nat" where
  "daysInMonth y m =
     (if m = 2 then (if leapYear y then 29 else 28)
      else if m = 4 \<or> m = 6 \<or> m = 9 \<or> m = 11 then 30 else 31)"

fun prevDay :: "CalDate \<Rightarrow> CalDate" where
  "prevDay InvalidDate = InvalidDate"
| "prevDay (Date y m d) =
     (if 1 < d then Date y m (d - 1)
      else if 1 < m then Date y (m - 1) (daysInMonth y (m - 1))
      else Date (y - 1) 12 31)"

fun refSubDays :: "CalDate \<Rightarrow> nat \<Rightarrow> CalDate" where
  "refSubDays d 0 = d"
| "refSubDays d (Suc n) = refSubDays (prevDay d) n"

definition digitChar :: "nat \<Rightarrow> char" where
  "digitChar n = ''0123456789'' ! (n mod 10)"

definition pad2 :: "nat \<Rightarrow> string" where
  "pad2 n = [digitChar (n div 10), digitChar n]"

definition pad4 :: "nat \<Rightarrow> string" where
  "pad4 n = [digitChar (n div 1000), digitChar (n div 100), digitChar (n div 10), digitChar n]"

definition digitValue :: "char \<Rightarrow> nat" where
  "digitValue c = length (takeWhile (\<lambda>d. d \<noteq> c) ''0123456789'')"

definition digitsValue :: "string \<Rightarrow> nat" where
  "digitsValue ds = foldl (\<lambda>acc c. 10 * acc + digitValue c) 0 ds"

fun refFormat :: "CalDate \<Rightarrow> error + string" where
  "refFormat InvalidDate = Inl RangeError"
| "refFormat (Date y m d) = Inr (pad4 (nat y) @ ''-'' @ pad2 m @ ''-'' @ pad2 d)"

fun refGetFullYear :: "CalDate \<Rightarrow> number" where
  "refGetFullYear InvalidDate = NaN"
| "refGetFullYear (Date y m d) = Num (of_int y)"

definition calDate :: "string \<Rightarrow> string \<Rightarrow> string \<Rightarrow> CalDate" where
  "calDate ys ms ds =
     (if list_all isDigit (ys @ ms @ ds) \<and> 1 \<le> digitsValue ys
         \<and> 1 \<le> digitsValue ms \<and> digitsValue ms \<le> 12
         \<and> 1 \<le> digitsValue ds \<and> digitsValue ds \<le> daysInMonth (int (digitsValue ys)) (digitsValue ms)
      then Date (int (digitsValue ys)) (digitsValue ms) (digitsValue ds)
      else InvalidDate)"

definition refParse :: "string \<Rightarrow> CalDate option" where
  "refParse s =
     (if length s = 10 \<and> s ! 2 = CHR ''/'' \<and> s ! 5 = CHR ''/''
      then Some (calDate (drop 6 s) (take 2 s) (take 2 (drop 3 s)))
      else Some InvalidDate)"

definition refParseISO :: "string \<Rightarrow> CalDate option" where
  "refParseISO s =
     (if length s = 10 \<and> s ! 4 = CHR ''-'' \<and> s ! 7 = CHR ''-''
      then Some (calDate (take 4 s) (take 2 (drop 5 s)) (drop 8 s))
      else Some InvalidDate)"

definition refParseFloat :: "string \<Rightarrow> number" where
  "refParseFloat s =
     (let neg = (case s of c # _ \<Rightarrow> c = CHR ''-'' | [] \<Rightarrow> False);
          r = (if neg then tl s else s);
          ip = takeWhile isDigit r;
          r' = dropWhile isDigit r;
          fp = (case r' of c # cs \<Rightarrow> if c = CHR ''.'' then takeWhile isDigit cs else [] | [] \<Rightarrow> []);
          v = real (digitsValue ip) + real (digitsValue fp) / 10 ^ length fp
      in if ip = [] \<and> fp = [] then NaN else toDouble (if neg then - v else v))"

fun refLocaleCompare :: "string \<Rightarrow> string \<Rightarrow> int" where
  "refLocaleCompare [] [] = 0"
| "refLocaleCompare [] (b # bs) = - 1"
| "refLocaleCompare (a # as) [] = 1"
| "refLocaleCompare (a # as) (b # bs) =
     (if a = b then refLocaleCompare as bs
      else if (of_char a :: nat) < of_char b then - 1 else 1)"

definition refExterns :: "CalDate externs" where
  "refExterns =
     \<lparr>parse = refParse, parseISO = refParseISO, format = refFormat, subDays = refSubDays,
      getFullYear = refGetFullYear, parseFloat = refParseFloat, localeCompare = refLocaleCompare\<rparr>"

fun splitComma :: "string \<Rightarrow> string list" where
  "splitComma [] = [[]]"
| "splitComma (c # cs) =
     (if c = CHR '','' then [] # splitComma cs
      else (case splitComma cs of
              f # fs \<Rightarrow> (c # f) # fs
            | [] \<Rightarrow> [[c]]))"

definition refPapaParse :: "string \<Rightarrow> string + CsvRow list" where
  "refPapaParse csv =
     (case filter (\<lambda>l. l \<noteq> []) (splitNewline csv) of
        [] \<Rightarrow> Inr []
      | header # lines \<Rightarrow> Inr (map (\<lambda>l. map_of (zip (splitComma header) (splitComma l))) lines))"

section \<open>Example inputs\<close>

text \<open>
  The scenarios of the specification: a rate table, one capital-gains row (AAPL), one
  dividend row, and beside them a row acquired at various dates, a row with cents, a row
  sold in 2022, rows without a date, and an interest row.
\<close>

definition specRates :: RatesMap where
  "specRates =
     [''2022-12-30'' \<mapsto> Num 132.5, ''2023-01-02'' \<mapsto> Num 130, ''2023-03-04'' \<mapsto> Num 140,
      ''2023-06-15'' \<mapsto> toDouble 145.2]"

definition rowAAPL :: GainLossRow where
  "rowAAPL = map_of
     [(''Symbol'', ''AAPL''), (''Quantity'', ''10''), (''Date Acquired'', ''01/02/2023''),
      (''Date Sold'', ''03/04/2023''), (''Sales Proceeds'', ''$1,500.00''),
      (''Adjust Cost'', ''$1,000.00''), (''WS Loss Disallowed'', ''$0.00''), (''Wash Sales'', [])]"

definition rowVarious :: GainLossRow where
  "rowVarious = map_of
     [(''Symbol'', ''MSFT''), (''Quantity'', ''3''), (''Date Acquired'', ''VARIOUS''),
      (''Date Sold'', ''03/04/2023''), (''Sales Proceeds'', ''$900.00''),
      (''Adjust Cost'', ''$600.00''), (''WS Loss Disallowed'', ''$0.00''), (''Wash Sales'', [])]"

definition rowCents :: GainLossRow where
  "rowCents = map_of
     [(''Symbol'', ''AAPL''), (''Quantity'', ''1''), (''Date Acquired'', ''01/02/2023''),
      (''Date Sold'', ''03/04/2023''), (''Sales Proceeds'', ''$10.01''),
      (''Adjust Cost'', ''$10.02''), (''WS Loss Disallowed'', ''$0.00''), (''Wash Sales'', [])]"

definition rowUndated :: GainLossRow where
  "rowUndated = map_of
     [(''Symbol'', ''CASH''), (''Quantity'', ''1''), (''Date Acquired'', []),
      (''Date Sold'', []), (''Sales Proceeds'', ''$1.00''),
      (''Adjust Cost'', ''$1.00''), (''WS Loss Disallowed'', ''$0.00''), (''Wash Sales'', [])]"

definition rowDividend :: HistoryRow where
  "rowDividend = map_of
     [(''Symbol'', ''AAPL''), (''Action'', ''Dividend''),
      (''Description'', ''NON-RES TAX WITHHELD $1.50''), (''TradeDate'', ''2023-06-15''),
      (''Amount'', ''$8.50'')]"

definition rowInterest :: HistoryRow where
  "rowInterest = map_of
     [(''Symbol'', ''CASH''), (''Action'', ''Interest''),
      (''Description'', ''INTEREST ON CREDIT BALANCE''), (''TradeDate'', ''2023-06-15''),
      (''Amount'', ''1.25'')]"

definition rowPending :: HistoryRow where
  "rowPending = map_of
     [(''Symbol'', ''AAPL''), (''Action'', ''Dividend''),
      (''Description'', ''PENDING''), (''TradeDate'', []), (''Amount'', ''$2.00'')]"

definition rowOld :: GainLossRow where
  "rowOld = map_of
     [(''Symbol'', ''MSFT''), (''Quantity'', ''2''), (''Date Acquired'', ''12/30/2022''),
      (''Date Sold'', ''12/30/2022''), (''Sales Proceeds'', ''$400.00''),
      (''Adjust Cost'', ''$500.00''), (''WS Loss Disallowed'', ''$0.00''), (''Wash Sales'', [])]"

text \<open>
  The state after the rates were fetched for four capital-gains rows, one of them sold in
  2022, with the year 2023 selected.
\<close>

definition exampleState :: "CalDate AppState" where
  "exampleState =
     (initialState (Num 2023))
       \<lparr>gainLossData :=
          (case calculateGainLoss refExterns [rowAAPL, rowVarious, rowCents, rowOld] specRates of
             Inl e \<Rightarrow> []
           | Inr calculated \<Rightarrow> calculated),
        gainLossRaw := Some [rowAAPL, rowVarious, rowCents, rowOld],
        rates := specRates\<rparr>"

text \<open>
  Two files: a gain/loss export with a title line above its header, and a history export
  that holds one interest row and no dividend.
\<close>

definition gainLossFile :: string where
  "gainLossFile =
     ''Realized Gain/Loss'' @ [CHR 0x0A] @
     ''Symbol,Quantity,Date Acquired,Date Sold,Sales Proceeds,Adjust Cost'' @ [CHR 0x0A] @
     ''AAPL,10,01/02/2023,03/04/2023,1500.00,1000.00''"

definition interestOnlyFile :: string where
  "interestOnlyFile =
     ''Symbol,Action,Description,TradeDate,Amount'' @ [CHR 0x0A] @
     ''CASH,Interest,INTEREST ON CREDIT BALANCE,2023-06-15,1.25''"

text \<open>
  Inputs on which the rounding of doubles shows: a table with the rate 100, a sale of some
  ninety trillion dollars, a row that has a cost and no proceeds, a row of ten dollars
  sold at 145.2, and a dividend of ten cents with twenty cents of tax withheld.
\<close>

definition rates100 :: RatesMap where
  "rates100 = [''2023-01-02'' \<mapsto> Num 100, ''2023-03-04'' \<mapsto> Num 100]"

definition rowHuge :: GainLossRow where
  "rowHuge = map_of
     [(''Symbol'', ''AAPL''), (''Quantity'', ''1''), (''Date Acquired'', ''01/02/2023''),
      (''Date Sold'', ''03/04/2023''), (''Sales Proceeds'', ''$90071992547409.94''),
      (''Adjust Cost'', ''$0.01''), (''WS Loss Disallowed'', ''$0.00''), (''Wash Sales'', [])]"

definition rowCostOnly :: GainLossRow where
  "rowCostOnly = map_of
     [(''Symbol'', ''AAPL''), (''Quantity'', ''1''), (''Date Acquired'', ''01/02/2023''),
      (''Date Sold'', ''03/04/2023''), (''Sales Proceeds'', ''$0.00''),
      (''Adjust Cost'', ''$0.01''), (''WS Loss Disallowed'', ''$0.00''), (''Wash Sales'', [])]"

definition rowTen :: GainLossRow where
  "rowTen = map_of
     [(''Symbol'', ''AAPL''), (''Quantity'', ''1''), (''Date Acquired'', ''06/15/2023''),
      (''Date Sold'', ''06/15/2023''), (''Sales Proceeds'', ''$10.00''),
      (''Adjust Cost'', ''$10.00''), (''WS Loss Disallowed'', ''$0.00''), (''Wash Sales'', [])]"

definition rowTenths :: HistoryRow where
  "rowTenths = map_of
     [(''Symbol'', ''AAPL''), (''Action'', ''Dividend''),
      (''Description'', ''NON-RES TAX WITHHELD $0.20''), (''TradeDate'', ''2023-06-15''),
      (''Amount'', ''$0.10'')]"

text \<open>A dividend whose description has a no-break space (U+00A0) before the amount.\<close>

definition rowNoBreakSpace :: HistoryRow where
  "rowNoBreakSpace = map_of
     [(''Symbol'', ''AAPL''), (''Action'', ''Dividend''),
      (''Description'', ''NON-RES TAX WITHHELD'' @ [CHR 0xC2, CHR 0xA0] @ ''$1.23''),
      (''TradeDate'', ''2023-06-15''), (''Amount'', ''$8.50'')]"

text \<open>A row whose date acquired is the text \<open>N/A\<close>, which has a slash and is no date.\<close>

definition rowNoAcquisition :: GainLossRow where
  "rowNoAcquisition = map_of
     [(''Symbol'', ''MSFT''), (''Quantity'', ''3''), (''Date Acquired'', ''N/A''),
      (''Date Sold'', ''03/04/2023''), (''Sales Proceeds'', ''$900.00''),
      (''Adjust Cost'', ''$600.00''), (''WS Loss Disallowed'', ''$0.00''), (''Wash Sales'', [])]"

text \<open>The state after the rates were fetched for the two rows of the large sale.\<close>

definition largeState :: "CalDate AppState" where
  "largeState =
     (initialState (Num 2023))
       \<lparr>gainLossData :=
          (case calculateGainLoss refExterns [rowHuge, rowCostOnly] rates100 of
             Inl e \<Rightarrow> []
           | Inr calculated \<Rightarrow> calculated),
        gainLossRaw := Some [rowHuge, rowCostOnly],
        rates := rates100\<rparr>"

section \<open>Evaluation of the instance\<close>

lemma roundSmall_numeral:
  "roundSmall (numeral k) a =
     (if 2 ^ 52 \<le> a then of_int (roundHalfEven a) else roundSmall (pred_numeral k) (2 * a) / 2)"
  by (simp add: numeral_eq_Suc)

lemma roundLarge_numeral:
  "roundLarge (numeral k) a =
     (if a < 2 ^ 53 then Some (of_int (roundHalfEven a))
      else map_option (\<lambda>r. 2 * r) (roundLarge (pred_numeral k) (a / 2)))"
  by (simp add: numeral_eq_Suc)

lemma dropAllOf_numeral:
  "dropAllOf ws (numeral k) s =
     (case dropOneOf ws s of None \<Rightarrow> s | Some r \<Rightarrow> dropAllOf ws (pred_numeral k) r)"
  by (simp add: numeral_eq_Suc)

lemmas double_eval = toDouble_def roundSmall_numeral roundLarge_numeral roundHalfEven_def

lemmas space_eval = dropSpaces_def trim_def whiteSpaces_def dropAllOf_numeral

lemma refSubDays_Suc: "refSubDays d (Suc j) = prevDay (refSubDays d j)"
  by (induction j arbitrary: d) simp_all

lemma refSubDays_numeral: "refSubDays d (numeral k) = refSubDays (prevDay d) (pred_numeral k)"
  by (simp add: numeral_eq_Suc)

lemma format_ref: "format refExterns = refFormat"
  by (simp add: refExterns_def)

lemma daysBefore_ref: "daysBefore refExterns d j = refSubDays d j"
proof (induction j)
  case 0
  show ?case by (simp add: daysBefore_def)
next
  case (Suc j)
  have "daysBefore refExterns d (Suc j) = refSubDays (daysBefore refExterns d j) (Suc 0)"
    by (simp add: daysBefore_def refExterns_def)
  then show ?case by (simp add: Suc refSubDays_Suc del: refSubDays.simps(2))
qed

lemma less_10_cases: "j \<in> {0, 1, 2, 3, 4, 5, 6, 7, 8, 9}" if "j < 10" for j :: nat
  using that by auto

lemmas ref_eval =
  refExterns_def refSubDays_numeral pad2_def pad4_def digitChar_def daysInMonth_def leapYear_def
  refParse_def refParseISO_def calDate_def isDigit_def digitsValue_def digitValue_def
  refParseFloat_def double_eval

section \<open>Properties of the arithmetic\<close>

lemma roundHalfEven_of_int: "roundHalfEven (of_int m) = m"
  by (simp add: roundHalfEven_def)

lemma roundSmall_of_int:
  "0 < m \<Longrightarrow> (of_int m :: real) < 2 ^ 53 \<Longrightarrow> (2 ^ 52 :: real) \<le> of_int m * 2 ^ n
     \<Longrightarrow> roundSmall n (of_int m) = of_int m"
proof (induction n arbitrary: m)
  case 0
  then show ?case by (simp add: roundHalfEven_of_int)
next
  case (Suc n)
  show ?case
  proof (cases "(2 ^ 52 :: real) \<le> of_int m")
    case True
    then show ?thesis by (simp add: roundHalfEven_of_int)
  next
    case False
    have "roundSmall n (of_int (2 * m)) = of_int (2 * m)"
    proof (rule Suc.IH)
      show "0 < 2 * m" using Suc.prems(1) by simp
      show "(of_int (2 * m) :: real) < 2 ^ 53" using False by simp
      show "(2 ^ 52 :: real) \<le> of_int (2 * m) * 2 ^ n" using Suc.prems(3) by (simp add: mult.assoc)
    qed
    then show ?thesis using False by simp
  qed
qed

text \<open>An integer of magnitude at most \<open>2^53\<close> is a double: rounding leaves it as it is.\<close>

lemma toDouble_of_int:
  assumes "\<bar>of_int m :: real\<bar> \<le> 2 ^ 53"
  shows "toDouble (of_int m) = Num (of_int m)"
proof -
  consider "m = 0" | "0 < \<bar>m\<bar>" "\<bar>of_int m :: real\<bar> < 2 ^ 53" | "\<bar>of_int m :: real\<bar> = 2 ^ 53"
    using assms by fastforce
  then show ?thesis
  proof cases
    case 1
    then show ?thesis by (simp add: toDouble_def)
  next
    case 2
    have pos: "(1 :: real) \<le> of_int \<bar>m\<bar>" using 2(1) by linarith
    have "(2 ^ 52 :: real) \<le> 1 * 2 ^ 1074" by simp
    also have "\<dots> \<le> of_int \<bar>m\<bar> * 2 ^ 1074" using pos by (intro mult_right_mono) simp_all
    finally have big: "(2 ^ 52 :: real) \<le> of_int \<bar>m\<bar> * 2 ^ 1074" .
    have "roundSmall 1074 (of_int \<bar>m\<bar>) = of_int \<bar>m\<bar>"
      using 2 big by (intro roundSmall_of_int) simp_all
    then have "roundSmall 1074 \<bar>of_int m :: real\<bar> = \<bar>of_int m\<bar>" by simp
    moreover have "of_int m \<noteq> (0 :: real)" using 2(1) by simp
    ultimately show ?thesis using 2(2) by (simp add: toDouble_def sgn_mult_abs del: of_int_abs)
  next
    case 3
    have r: "roundLarge 972 (2 ^ 53) = Some (2 ^ 53)"
      by (simp add: roundLarge_numeral roundHalfEven_def)
    have nz: "of_int m \<noteq> (0 :: real)" using 3 by auto
    have "sgn (of_int m :: real) * \<bar>of_int m\<bar> = of_int m" by (rule sgn_mult_abs)
    then have "sgn (of_int m :: real) * 2 ^ 53 = of_int m" using 3 by simp
    then show ?thesis using 3 r nz by (simp add: toDouble_def del: of_int_abs)
  qed
qed

lemma toDouble_Ints: "x \<in> \<int> \<Longrightarrow> \<bar>x\<bar> \<le> 2 ^ 53 \<Longrightarrow> toDouble x = Num x"
  by (auto simp: Ints_def toDouble_of_int simp del: of_int_abs)

lemma plus_exact:
  "a \<in> \<int> \<Longrightarrow> b \<in> \<int> \<Longrightarrow> \<bar>a + b\<bar> \<le> 2 ^ 53 \<Longrightarrow> Num a + Num b = Num (a + b)"
  by (simp add: toDouble_Ints)

lemma minus_exact:
  "a \<in> \<int> \<Longrightarrow> b \<in> \<int> \<Longrightarrow> \<bar>a - b\<bar> \<le> 2 ^ 53 \<Longrightarrow> Num a - Num b = Num (a - b)"
  by (simp add: toDouble_Ints)

lemma Math_floor_Ints: "Math_floor y = Num p \<Longrightarrow> p \<in> \<int>"
  by (cases y) auto

section \<open>Properties of the exchange rate resolver\<close>

lemma daysBefore_0: "daysBefore E d0 0 = d0"
  by (simp add: daysBefore_def)

lemma daysBefore_Suc: "subDays E (daysBefore E d0 j) (Suc 0) = daysBefore E d0 (Suc j)"
  by (simp add: daysBefore_def)

text \<open>
  The loop, entered at attempt \<open>a\<close> on the day \<open>a\<close> days back, skips the days whose
  entry is missing or falsy and stops at the first day \<open>k\<close> within the window whose entry
  is truthy.
\<close>

lemma getRateLoop_found:
  assumes "a \<le> k" and "k < 10"
    and "\<And>j. a \<le> j \<Longrightarrow> j \<le> k \<Longrightarrow> format E (daysBefore E d0 j) = Inr (key j)"
    and "\<And>j. a \<le> j \<Longrightarrow> j < k \<Longrightarrow> (case table (key j) of None \<Rightarrow> True | Some x \<Rightarrow> \<not> truthy x)"
    and "table (key k) = Some r" and "truthy r"
  shows "getRateLoop E table (daysBefore E d0 a) a = Inr \<lparr>RateResult.rate = r, dateUsed = key k\<rparr>"
  using assms
proof (induction "k - a" arbitrary: a)
  case 0
  then have ak: "a = k" by simp
  have "format E (daysBefore E d0 k) = Inr (key k)"
    using "0.prems"(3)[of k] ak by simp
  then show ?case
    using ak \<open>k < 10\<close> \<open>table (key k) = Some r\<close> \<open>truthy r\<close>
    by (subst getRateLoop.simps) simp
next
  case (Suc n)
  then have lt: "a < k" by simp
  have fmt: "format E (daysBefore E d0 a) = Inr (key a)"
    using Suc.prems(3)[of a] lt by simp
  have skip: "case table (key a) of None \<Rightarrow> True | Some x \<Rightarrow> \<not> truthy x"
    using Suc.prems(4)[of a] lt by simp
  have rec: "getRateLoop E table (daysBefore E d0 (Suc a)) (Suc a)
               = Inr \<lparr>RateResult.rate = r, dateUsed = key k\<rparr>"
  proof (rule Suc.hyps(1))
    show "n = k - Suc a" using Suc.hyps(2) by simp
    show "Suc a \<le> k" using lt by simp
    show "k < 10" by (rule Suc.prems(2))
    show "format E (daysBefore E d0 j) = Inr (key j)" if "Suc a \<le> j" "j \<le> k" for j
      using Suc.prems(3)[of j] that by simp
    show "case table (key j) of None \<Rightarrow> True | Some x \<Rightarrow> \<not> truthy x" if "Suc a \<le> j" "j < k" for j
      using Suc.prems(4)[of j] that by simp
    show "table (key k) = Some r" by (rule Suc.prems(5))
    show "truthy r" by (rule Suc.prems(6))
  qed
  have a10: "a < 10" using lt \<open>k < 10\<close> by simp
  show ?case
    using fmt skip rec a10
    by (subst getRateLoop.simps) (auto simp: daysBefore_Suc split: option.splits)
qed

lemma getRateLoop_not_found:
  assumes "a \<le> 10"
    and "\<And>j. a \<le> j \<Longrightarrow> j < 10 \<Longrightarrow> format E (daysBefore E d0 j) = Inr (key j)"
    and "\<And>j. a \<le> j \<Longrightarrow> j < 10 \<Longrightarrow> (case table (key j) of None \<Rightarrow> True | Some x \<Rightarrow> \<not> truthy x)"
  shows "getRateLoop E table (daysBefore E d0 a) a = Inr \<lparr>RateResult.rate = 0, dateUsed = ''N/A''\<rparr>"
  using assms
proof (induction "10 - a" arbitrary: a)
  case 0
  then show ?case by (subst getRateLoop.simps) simp
next
  case (Suc n)
  then have a10: "a < 10" by simp
  have fmt: "format E (daysBefore E d0 a) = Inr (key a)"
    using Suc.prems(2)[of a] a10 by simp
  have skip: "case table (key a) of None \<Rightarrow> True | Some x \<Rightarrow> \<not> truthy x"
    using Suc.prems(3)[of a] a10 by simp
  have rec: "getRateLoop E table (daysBefore E d0 (Suc a)) (Suc a)
               = Inr \<lparr>RateResult.rate = 0, dateUsed = ''N/A''\<rparr>"
  proof (rule Suc.hyps(1))
    show "n = 10 - Suc a" using Suc.hyps(2) by simp
    show "Suc a \<le> 10" using a10 by simp
    show "format E (daysBefore E d0 j) = Inr (key j)" if "Suc a \<le> j" "j < 10" for j
      using Suc.prems(2)[of j] that by simp
    show "case table (key j) of None \<Rightarrow> True | Some x \<Rightarrow> \<not> truthy x" if "Suc a \<le> j" "j < 10" for j
      using Suc.prems(3)[of j] that by simp
  qed
  show ?case
    using fmt skip rec a10
    by (subst getRateLoop.simps) (auto simp: daysBefore_Suc split: option.splits)
qed

text \<open>
  C1, as the code has it. Let \<open>key j\<close> be the formatted day \<open>j\<close> days before the date. If
  the table stores a truthy rate (not \<open>0\<close>, not \<open>NaN\<close>) at \<open>key k\<close> for some \<open>k \<le> 9\<close> and
  has no entry at the days \<open>key 0\<close>, ..., \<open>key (k - 1)\<close>, then \<open>getRateForDate\<close> returns that
  rate with \<open>dateUsed = key k\<close>. With \<open>k = 0\<close> this is the entry of the date itself.
\<close>

theorem getRateForDate_resolves:
  assumes "k \<le> 9"
    and "\<And>j. j \<le> k \<Longrightarrow> format E (daysBefore E d0 j) = Inr (key j)"
    and "\<And>j. j < k \<Longrightarrow> table (key j) = None"
    and "table (key k) = Some r" and "truthy r"
  shows "getRateForDate E d0 table = Inr \<lparr>RateResult.rate = r, dateUsed = key k\<rparr>"
proof -
  have "getRateLoop E table (daysBefore E d0 0) 0 = Inr \<lparr>RateResult.rate = r, dateUsed = key k\<rparr>"
  proof (rule getRateLoop_found [where key = key])
    show "0 \<le> k" by simp
    show "k < 10" using assms(1) by simp
    show "format E (daysBefore E d0 j) = Inr (key j)" if "j \<le> k" for j
      using assms(2) that .
    show "case table (key j) of None \<Rightarrow> True | Some x \<Rightarrow> \<not> truthy x" if "j < k" for j
      using assms(3)[OF that] by simp
    show "table (key k) = Some r" by (rule assms(4))
    show "truthy r" by (rule assms(5))
  qed
  then show ?thesis by (simp add: getRateForDate_def daysBefore_0)
qed

text \<open>
  The theorem at work: a Sunday whose Friday has a rate (\<open>k = 2\<close>), and that Friday
  itself (\<open>k = 0\<close>).
\<close>

theorem getRateForDate_resolves_witness:
  "getRateForDate refExterns (Date 2023 3 5) [''2023-03-03'' \<mapsto> Num 140.5]
     = Inr \<lparr>RateResult.rate = Num 140.5, dateUsed = ''2023-03-03''\<rparr>
   \<and> getRateForDate refExterns (Date 2023 3 3) [''2023-03-03'' \<mapsto> Num 140.5]
     = Inr \<lparr>RateResult.rate = Num 140.5, dateUsed = ''2023-03-03''\<rparr>"
proof -
  define keys where "keys = [''2023-03-05'', ''2023-03-04'', ''2023-03-03'']"
  define tbl :: RatesMap where "tbl = [''2023-03-03'' \<mapsto> Num 140.5]"
  have ev: "\<forall>j\<in>{0, 1, 2}. refFormat (refSubDays (Date 2023 3 5) j) = Inr (keys ! j)"
    unfolding keys_def by (simp add: ref_eval)
  have fmt: "format refExterns (daysBefore refExterns (Date 2023 3 5) j) = Inr (keys ! j)"
    if "j \<le> 2" for j
  proof -
    have "j \<in> {0, 1, 2}" using that by auto
    then show ?thesis unfolding format_ref daysBefore_ref by (rule ev[rule_format])
  qed
  have absent: "tbl (keys ! j) = None" if "j < 2" for j
  proof -
    have "j = 0 \<or> j = 1" using that by auto
    then show ?thesis unfolding keys_def tbl_def by auto
  qed
  have present: "tbl (keys ! 2) = Some (Num 140.5)"
    unfolding keys_def tbl_def by simp
  have "getRateForDate refExterns (Date 2023 3 5) tbl
          = Inr \<lparr>RateResult.rate = Num 140.5, dateUsed = keys ! 2\<rparr>"
    using fmt absent present
    by (intro getRateForDate_resolves [where k = 2 and key = "\<lambda>j. keys ! j"]) simp_all
  moreover have k2: "keys ! 2 = ''2023-03-03''"
    unfolding keys_def by simp
  moreover have "getRateForDate refExterns (Date 2023 3 3) tbl
          = Inr \<lparr>RateResult.rate = Num 140.5, dateUsed = ''2023-03-03''\<rparr>"
  proof (rule getRateForDate_resolves [where k = 0 and key = "\<lambda>j. ''2023-03-03''"])
    show "format refExterns (daysBefore refExterns (Date 2023 3 3) j) = Inr ''2023-03-03''"
      if "j \<le> 0" for j
      using that unfolding format_ref daysBefore_ref by (simp add: ref_eval)
    show "tbl ''2023-03-03'' = Some (Num 140.5)" unfolding tbl_def by simp
  qed simp_all
  ultimately show ?thesis unfolding tbl_def by simp
qed

text \<open>
  C1 as the spec states it fails where the stored rate is \<open>0\<close>: the table has an entry
  for 2023-03-04 itself, and the call returns the rate of the day before.
\<close>

theorem getRateForDate_zero_rate_skipped:
  "format refExterns (Date 2023 3 4) = Inr ''2023-03-04''
   \<and> [''2023-03-04'' \<mapsto> Num 0, ''2023-03-03'' \<mapsto> Num 140.5] ''2023-03-04'' = Some (Num 0)
   \<and> getRateForDate refExterns (Date 2023 3 4)
         [''2023-03-04'' \<mapsto> Num 0, ''2023-03-03'' \<mapsto> Num 140.5]
       = Inr \<lparr>RateResult.rate = Num 140.5, dateUsed = ''2023-03-03''\<rparr>"
  by (simp add: getRateForDate_def getRateLoop.simps ref_eval)

text \<open>
  C2. If none of the ten days from the date backward has an entry in the table, then
  \<open>getRateForDate\<close> returns the rate \<open>0\<close> and \<open>dateUsed = 'N/A'\<close>.
\<close>

theorem getRateForDate_not_found:
  assumes "\<And>j. j < 10 \<Longrightarrow> format E (daysBefore E d0 j) = Inr (key j)"
    and "\<And>j. j < 10 \<Longrightarrow> table (key j) = None"
  shows "getRateForDate E d0 table = Inr \<lparr>RateResult.rate = 0, dateUsed = ''N/A''\<rparr>"
proof -
  have "getRateLoop E table (daysBefore E d0 0) 0 = Inr \<lparr>RateResult.rate = 0, dateUsed = ''N/A''\<rparr>"
  proof (rule getRateLoop_not_found [where key = key])
    show "(0::nat) \<le> 10" by simp
    show "format E (daysBefore E d0 j) = Inr (key j)" if "j < 10" for j
      using assms(1) that .
    show "case table (key j) of None \<Rightarrow> True | Some x \<Rightarrow> \<not> truthy x" if "j < 10" for j
      using assms(2)[OF that] by simp
  qed
  then show ?thesis by (simp add: getRateForDate_def daysBefore_0)
qed

text \<open>The only entry of the table is ten days before the date, one day outside the window.\<close>

theorem getRateForDate_not_found_witness:
  "getRateForDate refExterns (Date 2023 3 5) [''2023-02-23'' \<mapsto> Num 134.5]
     = Inr \<lparr>RateResult.rate = 0, dateUsed = ''N/A''\<rparr>"
proof -
  define keys where "keys = [''2023-03-05'', ''2023-03-04'', ''2023-03-03'', ''2023-03-02'',
    ''2023-03-01'', ''2023-02-28'', ''2023-02-27'', ''2023-02-26'', ''2023-02-25'', ''2023-02-24'']"
  define tbl :: RatesMap where "tbl = [''2023-02-23'' \<mapsto> Num 134.5]"
  have ev: "\<forall>j\<in>{0, 1, 2, 3, 4, 5, 6, 7, 8, 9}.
      refFormat (refSubDays (Date 2023 3 5) j) = Inr (keys ! j) \<and> tbl (keys ! j) = None"
    unfolding keys_def tbl_def by (simp add: ref_eval)
  have fmt: "format refExterns (daysBefore refExterns (Date 2023 3 5) j) = Inr (keys ! j)"
    if "j < 10" for j
    unfolding format_ref daysBefore_ref
    using ev[rule_format, OF less_10_cases[OF that]] by (rule conjunct1)
  have absent: "tbl (keys ! j) = None" if "j < 10" for j
    using ev[rule_format, OF less_10_cases[OF that]] by (rule conjunct2)
  have "getRateForDate refExterns (Date 2023 3 5) tbl
          = Inr \<lparr>RateResult.rate = 0, dateUsed = ''N/A''\<rparr>"
    using fmt absent
    by (intro getRateForDate_not_found [where key = "\<lambda>j. keys ! j"]) simp_all
  then show ?thesis unfolding tbl_def by simp
qed

section \<open>Properties of the transaction calculators\<close>

lemma mapIdx_nth:
  "mapIdx f rows k = Inr ys \<Longrightarrow>
     length ys = length rows \<and> (\<forall>i<length rows. f (rows ! i) (k + i) = Inr (ys ! i))"
proof (induction rows arbitrary: k ys)
  case Nil
  then show ?case by simp
next
  case (Cons row rows)
  from Cons.prems obtain y ys' where fy: "f row k = Inr y"
    and rest: "mapIdx f rows (k + 1) = Inr ys'" and ys: "ys = y # ys'"
    by (auto split: sum.splits)
  from Cons.IH[OF rest] have len: "length ys' = length rows"
    and nth: "\<And>i. i < length rows \<Longrightarrow> f (rows ! i) (k + 1 + i) = Inr (ys' ! i)"
    by auto
  show ?case
  proof (intro conjI allI impI)
    show "length ys = length (row # rows)" using len ys by simp
    fix i assume "i < length (row # rows)"
    then show "f ((row # rows) ! i) (k + i) = Inr (ys ! i)"
      using fy nth[of "i - 1"] ys by (cases i) auto
  qed
qed

lemma filterBoolean_set: "t \<in> set (filterBoolean ys) \<longleftrightarrow> Some t \<in> set ys"
  by (induction ys rule: filterBoolean.induct) auto

text \<open>
  The identities that survive \<open>filter(Boolean)\<close>: if the callback gives a record the index
  it is called with, and returns \<open>null\<close> exactly on the rows that \<open>keep\<close> rejects, then the
  identities of the result are the indices of the kept rows, in order.
\<close>

lemma mapIdx_ids:
  assumes "\<And>row idx t. f row idx = Inr (Some t) \<Longrightarrow> ident t = idx \<and> keep row"
    and "\<And>row idx. f row idx = Inr None \<Longrightarrow> \<not> keep row"
  shows "mapIdx f rows k = Inr ys \<Longrightarrow>
     map ident (filterBoolean ys) = map (\<lambda>i. k + i) (filter (\<lambda>i. keep (rows ! i)) [0..<length rows])"
proof (induction rows arbitrary: k ys)
  case Nil
  then show ?case by simp
next
  case (Cons row rows)
  from Cons.prems obtain y ys' where fy: "f row k = Inr y"
    and rest: "mapIdx f rows (k + 1) = Inr ys'" and ys: "ys = y # ys'"
    by (auto split: sum.splits)
  have tl: "map ident (filterBoolean ys') =
      map (\<lambda>i. k + 1 + i) (filter (\<lambda>i. keep (rows ! i)) [0..<length rows])"
    by (rule Cons.IH[OF rest])
  have shift: "filter (\<lambda>i. keep ((row # rows) ! i)) (map Suc [0..<length rows]) =
      map Suc (filter (\<lambda>i. keep (rows ! i)) [0..<length rows])"
    by (simp add: filter_map comp_def)
  have upt: "[0..<length (row # rows)] = 0 # map Suc [0..<length rows]"
    by (simp add: upt_conv_Cons map_Suc_upt del: upt_Suc)
  show ?case
  proof (cases y)
    case None
    then have "\<not> keep row" using assms(2) fy by simp
    then show ?thesis using None ys tl shift unfolding upt by (simp add: comp_def)
  next
    case (Some t)
    then have "ident t = k" and "keep row" using assms(1) fy by auto
    then show ?thesis using Some ys tl shift unfolding upt by (simp add: comp_def)
  qed
qed

lemma gainLossOfRow_Some:
  assumes "gainLossOfRow E table row idx = Inr (Some t)"
  shows "\<exists>ds rs ra.
     parseDateAny E (row ''Date Sold'') = Some ds
     \<and> getRateForDate E ds table = Inr rs
     \<and> getRateForDate E (case parseDateAny E (row ''Date Acquired'') of None \<Rightarrow> ds | Some da \<Rightarrow> da) table = Inr ra
     \<and> JpyTransaction.id t = idx
     \<and> dateSold t = ds
     \<and> dateAcquired t = Some (case parseDateAny E (row ''Date Acquired'') of None \<Rightarrow> ds | Some da \<Rightarrow> da)
     \<and> JpyTransaction.proceedsUsd t = parseMoney E (row ''Sales Proceeds'')
     \<and> JpyTransaction.costUsd t = parseMoney E (row ''Adjust Cost'')
     \<and> rateSold t = RateResult.rate rs
     \<and> rateAcquired t = RateResult.rate ra
     \<and> proceedsJpy t = Math_floor (JpyTransaction.proceedsUsd t * rateSold t)
     \<and> costJpy t = Math_floor (JpyTransaction.costUsd t * rateAcquired t)
     \<and> gainLossJpy t = proceedsJpy t - costJpy t
     \<and> notes t =
         (if parseDateAny E (row ''Date Acquired'') = None
             \<and> (\<exists>txt. row ''Date Acquired'' = Some txt \<and> str_includes (toLowerCase txt) ''var'')
          then noteVarious
          else if strict_eq (rateSold t) 0 then noteRateError else [])"
  using assms
  by (auto simp: gainLossOfRow_def Let_def split: option.splits sum.splits)

lemma gainLossOfRow_None:
  "gainLossOfRow E table row idx = Inr None \<longleftrightarrow> parseDateAny E (row ''Date Sold'') = None"
  by (auto simp: gainLossOfRow_def Let_def split: option.splits sum.splits)


lemma dividendOfRow_Some:
  assumes "dividendOfRow E table row idx = Inr (Some t)"
  shows "\<exists>d rd.
     parseDateAny E (row ''TradeDate'') = Some d
     \<and> getRateForDate E d table = Inr rd
     \<and> DividendTransaction.id t = idx
     \<and> DividendTransaction.date t = d
     \<and> DividendTransaction.amountNetUsd t = parseMoney E (row ''Amount'')
     \<and> extractTaxFromDescription E (row ''Description'') = Inr (taxUsd t)
     \<and> DividendTransaction.rate t = RateResult.rate rd
     \<and> amountGrossUsd t = DividendTransaction.amountNetUsd t + taxUsd t
     \<and> amountGrossJpy t = Math_floor (amountGrossUsd t * DividendTransaction.rate t)
     \<and> taxJpy t = Math_floor (taxUsd t * DividendTransaction.rate t)
     \<and> DividendTransaction.amountNetJpy t
           = Math_floor (DividendTransaction.amountNetUsd t * DividendTransaction.rate t)"
  using assms
  by (auto simp: dividendOfRow_def Let_def split: option.splits sum.splits)

lemma dividendOfRow_None:
  "dividendOfRow E table row idx = Inr None \<longleftrightarrow> parseDateAny E (row ''TradeDate'') = None"
  by (auto simp: dividendOfRow_def Let_def split: option.splits sum.splits)

lemma interestOfRow_Some:
  assumes "interestOfRow E table row idx = Inr (Some t)"
  shows "parseDateAny E (row ''TradeDate'') \<noteq> None \<and> InterestTransaction.id t = idx"
  using assms
  by (auto simp: interestOfRow_def Let_def split: option.splits sum.splits)

lemma interestOfRow_None:
  "interestOfRow E table row idx = Inr None \<longleftrightarrow> parseDateAny E (row ''TradeDate'') = None"
  by (auto simp: interestOfRow_def Let_def split: option.splits sum.splits)

lemma calculateGainLoss_rows:
  assumes "calculateGainLoss E rows table = Inr out"
  obtains ys where "mapIdx (gainLossOfRow E table) rows 0 = Inr ys" and "out = filterBoolean ys"
  using assms by (auto simp: calculateGainLoss_def split: sum.splits)

lemma calculateGainLoss_member:
  assumes "calculateGainLoss E rows table = Inr out" and "t \<in> set out"
  shows "\<exists>i<length rows. gainLossOfRow E table (rows ! i) i = Inr (Some t)"
proof -
  from assms(1) obtain ys where m: "mapIdx (gainLossOfRow E table) rows 0 = Inr ys"
    and out: "out = filterBoolean ys" by (rule calculateGainLoss_rows)
  from assms(2) out have "Some t \<in> set ys" by (simp add: filterBoolean_set)
  then obtain i where "i < length ys" and "ys ! i = Some t" by (auto simp: in_set_conv_nth)
  then show ?thesis using mapIdx_nth[OF m] by auto
qed

lemma calculateDividends_member:
  assumes "calculateDividends E rows table = Inr out" and "t \<in> set out"
  shows "\<exists>i<length rows. dividendOfRow E table (rows ! i) i = Inr (Some t)"
proof -
  from assms(1) obtain ys where m: "mapIdx (dividendOfRow E table) rows 0 = Inr ys"
    and out: "out = filterBoolean ys" by (auto simp: calculateDividends_def split: sum.splits)
  from assms(2) out have "Some t \<in> set ys" by (simp add: filterBoolean_set)
  then obtain i where "i < length ys" and "ys ! i = Some t" by (auto simp: in_set_conv_nth)
  then show ?thesis using mapIdx_nth[OF m] by auto
qed

lemmas calc_eval =
  calculateGainLoss_def gainLossOfRow_def calculateDividends_def dividendOfRow_def
  calculateInterests_def interestOfRow_def parseDateAny_def toLowerCase_def lowerChar_def
  parseMoney_def keepMoneyChar_def getRateForDate_def getRateLoop.simps Let_def toString_def
  zero_number_def extractTaxFromDescription_def matchTaxAt_def space_eval isAmountChar_def


lemma rowCents_calculated:
  "map_sum (\<lambda>e. e)
     (map (\<lambda>t. (gainLossJpy t,
        Math_floor (JpyTransaction.proceedsUsd t * rateSold t - JpyTransaction.costUsd t * rateAcquired t))))
     (calculateGainLoss refExterns [rowCents] specRates)
   = Inr [(Num 99, Num 98)]"
  by (simp add: calc_eval ref_eval rowCents_def specRates_def)

lemma rowAAPL_calculated:
  "map_sum (\<lambda>e. e) (map (\<lambda>t. (proceedsJpy t, costJpy t, gainLossJpy t)))
     (calculateGainLoss refExterns [rowAAPL] specRates)
   = Inr [(Num 210000, Num 130000, Num 80000)]"
  by (simp add: calc_eval ref_eval rowAAPL_def specRates_def)

lemma rowDividend_calculated:
  "map_sum (\<lambda>e. e)
     (map (\<lambda>t. (DividendTransaction.amountNetUsd t, taxUsd t, amountGrossUsd t,
        amountGrossJpy t, taxJpy t, DividendTransaction.amountNetJpy t)))
     (calculateDividends refExterns [rowDividend] specRates)
   = Inr [(Num 8.5, Num 1.5, Num 10, Num 1452, Num 217, Num 1234)]"
  by (simp add: calc_eval ref_eval rowDividend_def specRates_def)

lemma map_sum_Inr_singleton:
  assumes "map_sum (\<lambda>e. e) (map f) r = Inr [v]"
  obtains t where "r = Inr [t]" and "f t = v"
  using assms by (cases r) auto

lemma map_sum_Inr:
  assumes "map_sum (\<lambda>e. e) (map f) r = Inr vs"
  obtains xs where "r = Inr xs" and "map f xs = vs"
  using assms by (cases r) auto





lemma rowNoAcquisition_throws:
  "calculateGainLoss refExterns [rowNoAcquisition] specRates = Inl RangeError"
  by (simp add: calc_eval ref_eval rowNoAcquisition_def specRates_def)



text \<open>
  Ten dollars at the rate 145.2: the product of the two doubles is a little below 1452, the
  code rounds it to the double 1452 before it takes the floor.
\<close>

lemma rowTen_calculated:
  "map_sum (\<lambda>e. e) (map (\<lambda>t. (JpyTransaction.proceedsUsd t, rateSold t, proceedsJpy t)))
     (calculateGainLoss refExterns [rowTen] specRates)
   = Inr [(Num 10, Num (2554385413649203 / 17592186044416), Num 1452)]
   \<and> \<lfloor>10 * (2554385413649203 / 17592186044416 :: real)\<rfloor> = 1451"
  by (simp add: calc_eval ref_eval rowTen_def specRates_def)

text \<open>
  C4, as the code has it. Every record that \<open>calculateGainLoss\<close> produces has
  \<open>proceedsJpy\<close> the floor of the product, rounded to a double, of the proceeds in USD and
  the rate of the date sold, \<open>costJpy\<close> the floor of the rounded product of the cost in USD
  and the rate of the date acquired, and \<open>gainLossJpy\<close> the difference of these two,
  rounded to a double. When the two amounts are finite they are integers, and when their
  difference has a magnitude of at most \<open>2^53\<close> the rounding changes nothing:
  \<open>gainLossJpy\<close> is the integer \<open>proceedsJpy - costJpy\<close>. The floor is taken before the
  subtraction: on the row with cents the result is 99, where the floor of the difference
  is 98.
\<close>

theorem calculateGainLoss_floors_before_subtracting:
  assumes "calculateGainLoss E rows table = Inr out" and "t \<in> set out"
  shows "gainLossJpy t = proceedsJpy t - costJpy t
     \<and> proceedsJpy t = Math_floor (JpyTransaction.proceedsUsd t * rateSold t)
     \<and> costJpy t = Math_floor (JpyTransaction.costUsd t * rateAcquired t)
     \<and> (\<forall>p c. proceedsJpy t = Num p \<and> costJpy t = Num c \<longrightarrow>
           p \<in> \<int> \<and> c \<in> \<int> \<and> gainLossJpy t = toDouble (p - c)
           \<and> (\<bar>p - c\<bar> \<le> 2 ^ 53 \<longrightarrow> gainLossJpy t = Num (p - c)))
     \<and> (\<exists>row\<in>set rows. \<exists>rs ra da.
           JpyTransaction.proceedsUsd t = parseMoney E (row ''Sales Proceeds'')
           \<and> JpyTransaction.costUsd t = parseMoney E (row ''Adjust Cost'')
           \<and> getRateForDate E (dateSold t) table = Inr rs \<and> rateSold t = RateResult.rate rs
           \<and> dateAcquired t = Some da
           \<and> getRateForDate E da table = Inr ra \<and> rateAcquired t = RateResult.rate ra)
     \<and> (\<exists>t'. calculateGainLoss refExterns [rowCents] specRates = Inr [t']
           \<and> gainLossJpy t' = Num 99
           \<and> Math_floor (JpyTransaction.proceedsUsd t' * rateSold t'
                - JpyTransaction.costUsd t' * rateAcquired t') = Num 98)"
proof -
  from calculateGainLoss_member[OF assms] obtain i where i: "i < length rows"
    and r: "gainLossOfRow E table (rows ! i) i = Inr (Some t)" by auto
  have row: "rows ! i \<in> set rows" using i by simp
  from gainLossOfRow_Some[OF r] obtain ds rs ra where
    f: "getRateForDate E ds table = Inr rs"
      "getRateForDate E (case parseDateAny E ((rows ! i) ''Date Acquired'') of None \<Rightarrow> ds | Some da \<Rightarrow> da) table = Inr ra"
      "dateSold t = ds"
      "dateAcquired t = Some (case parseDateAny E ((rows ! i) ''Date Acquired'') of None \<Rightarrow> ds | Some da \<Rightarrow> da)"
      "JpyTransaction.proceedsUsd t = parseMoney E ((rows ! i) ''Sales Proceeds'')"
      "JpyTransaction.costUsd t = parseMoney E ((rows ! i) ''Adjust Cost'')"
      "rateSold t = RateResult.rate rs" "rateAcquired t = RateResult.rate ra"
    and g1: "proceedsJpy t = Math_floor (JpyTransaction.proceedsUsd t * rateSold t)"
    and g2: "costJpy t = Math_floor (JpyTransaction.costUsd t * rateAcquired t)"
    and g3: "gainLossJpy t = proceedsJpy t - costJpy t"
    by blast
  have fin: "p \<in> \<int> \<and> c \<in> \<int> \<and> gainLossJpy t = toDouble (p - c)
           \<and> (\<bar>p - c\<bar> \<le> 2 ^ 53 \<longrightarrow> gainLossJpy t = Num (p - c))"
    if pc: "proceedsJpy t = Num p \<and> costJpy t = Num c" for p c
  proof -
    have p: "p \<in> \<int>" using g1 pc Math_floor_Ints[of "JpyTransaction.proceedsUsd t * rateSold t" p] by simp
    have c: "c \<in> \<int>" using g2 pc Math_floor_Ints[of "JpyTransaction.costUsd t * rateAcquired t" c] by simp
    have d: "gainLossJpy t = toDouble (p - c)" using g3 pc by simp
    have "gainLossJpy t = Num (p - c)" if "\<bar>p - c\<bar> \<le> 2 ^ 53"
      using g3 pc minus_exact[OF p c that] by simp
    then show ?thesis using p c d by blast
  qed
  have src: "\<exists>row\<in>set rows. \<exists>rs ra da.
           JpyTransaction.proceedsUsd t = parseMoney E (row ''Sales Proceeds'')
           \<and> JpyTransaction.costUsd t = parseMoney E (row ''Adjust Cost'')
           \<and> getRateForDate E (dateSold t) table = Inr rs \<and> rateSold t = RateResult.rate rs
           \<and> dateAcquired t = Some da
           \<and> getRateForDate E da table = Inr ra \<and> rateAcquired t = RateResult.rate ra"
    using row f by blast
  obtain t' where "calculateGainLoss refExterns [rowCents] specRates = Inr [t']"
    and "(gainLossJpy t', Math_floor (JpyTransaction.proceedsUsd t' * rateSold t'
            - JpyTransaction.costUsd t' * rateAcquired t')) = (Num 99, Num 98)"
    using rowCents_calculated by (rule map_sum_Inr_singleton)
  then have ex: "\<exists>t'. calculateGainLoss refExterns [rowCents] specRates = Inr [t']
           \<and> gainLossJpy t' = Num 99
           \<and> Math_floor (JpyTransaction.proceedsUsd t' * rateSold t'
                - JpyTransaction.costUsd t' * rateAcquired t') = Num 98"
    by auto
  from g3 g1 g2 fin src ex show ?thesis by blast
qed

text \<open>The capital-gains scenario of the specification: 210000 - 130000 = 80000.\<close>

theorem calculateGainLoss_floors_before_subtracting_witness:
  "map_sum (\<lambda>e. e) (map (\<lambda>t. (proceedsJpy t, costJpy t, gainLossJpy t)))
     (calculateGainLoss refExterns [rowAAPL] specRates)
   = Inr [(Num 210000, Num 130000, Num (210000 - 130000))]
   \<and> \<bar>210000 - 130000 :: real\<bar> \<le> 2 ^ 53"
proof -
  obtain t where calc: "calculateGainLoss refExterns [rowAAPL] specRates = Inr [t]"
    and v: "(proceedsJpy t, costJpy t, gainLossJpy t) = (Num 210000, Num 130000, Num 80000)"
    using rowAAPL_calculated by (rule map_sum_Inr_singleton)
  have mem: "t \<in> set [t]" by simp
  have pc: "proceedsJpy t = Num 210000 \<and> costJpy t = Num 130000" using v by simp
  have small: "\<bar>210000 - 130000 :: real\<bar> \<le> 2 ^ 53" by simp
  from calculateGainLoss_floors_before_subtracting[OF calc mem]
  have "\<forall>p c. proceedsJpy t = Num p \<and> costJpy t = Num c \<longrightarrow>
           p \<in> \<int> \<and> c \<in> \<int> \<and> gainLossJpy t = toDouble (p - c)
           \<and> (\<bar>p - c\<bar> \<le> 2 ^ 53 \<longrightarrow> gainLossJpy t = Num (p - c))"
    by blast
  from this[rule_format, OF pc] small have "gainLossJpy t = Num (210000 - 130000)"
    by blast
  then show ?thesis using calc pc small by simp
qed

text \<open>
  C4 as the spec states it fails: the proceeds of the row are 9007199254740994 yen and its
  cost is 1 yen, both integers, and \<open>gainLossJpy\<close> is 9007199254740992, which is not their
  difference 9007199254740993: the subtraction rounds to a double.
\<close>

theorem calculateGainLoss_difference_rounded:
  "map_sum (\<lambda>e. e) (map (\<lambda>t. (proceedsJpy t, costJpy t, gainLossJpy t)))
     (calculateGainLoss refExterns [rowHuge] rates100)
   = Inr [(Num 9007199254740994, Num 1, Num 9007199254740992)]
   \<and> (9007199254740994 - 1 :: real) \<noteq> 9007199254740992"
  by (simp add: calc_eval ref_eval rowHuge_def rates100_def)

text \<open>
  The white space of the regular expression is that of Unicode: the tax is read after a
  no-break space as after a space.
\<close>

lemma rowNoBreakSpace_calculated:
  "map_sum (\<lambda>e. e) (map (\<lambda>t. (taxUsd t, amountGrossUsd t)))
     (calculateDividends refExterns [rowNoBreakSpace] specRates)
   = Inr [(Num (2769713770832855 / 2251799813685248), Num (2738751523394683 / 281474976710656))]"
  by (simp add: calc_eval ref_eval rowNoBreakSpace_def specRates_def)

text \<open>
  C5, as the code has it. Every record that \<open>calculateDividends\<close> produces has
  \<open>amountGrossUsd\<close> the sum, rounded to a double, of \<open>amountNetUsd\<close> and \<open>taxUsd\<close>, with
  the net amount parsed from the row and the tax extracted from its description, and each
  of the three JPY fields is the floor of the product, rounded to a double, of its own USD
  amount and the rate. The JPY fields are not derived from one another: in the dividend
  scenario of the specification the gross is 1452 and tax plus net is 217 + 1234 = 1451.
\<close>

theorem calculateDividends_gross_net_tax:
  assumes "calculateDividends E rows table = Inr out" and "t \<in> set out"
  shows "amountGrossUsd t = DividendTransaction.amountNetUsd t + taxUsd t
     \<and> (\<forall>a b. DividendTransaction.amountNetUsd t = Num a \<and> taxUsd t = Num b
           \<longrightarrow> amountGrossUsd t = toDouble (a + b))
     \<and> amountGrossJpy t = Math_floor (amountGrossUsd t * DividendTransaction.rate t)
     \<and> taxJpy t = Math_floor (taxUsd t * DividendTransaction.rate t)
     \<and> DividendTransaction.amountNetJpy t
           = Math_floor (DividendTransaction.amountNetUsd t * DividendTransaction.rate t)
     \<and> (\<exists>row\<in>set rows.
           DividendTransaction.amountNetUsd t = parseMoney E (row ''Amount'')
           \<and> extractTaxFromDescription E (row ''Description'') = Inr (taxUsd t))
     \<and> (\<exists>t'. calculateDividends refExterns [rowDividend] specRates = Inr [t']
           \<and> amountGrossJpy t' = Num 1452
           \<and> taxJpy t' = Num 217 \<and> DividendTransaction.amountNetJpy t' = Num 1234)"
proof -
  from calculateDividends_member[OF assms] obtain i where i: "i < length rows"
    and r: "dividendOfRow E table (rows ! i) i = Inr (Some t)" by auto
  have row: "rows ! i \<in> set rows" using i by simp
  from dividendOfRow_Some[OF r] have
    f: "DividendTransaction.amountNetUsd t = parseMoney E ((rows ! i) ''Amount'')"
      "extractTaxFromDescription E ((rows ! i) ''Description'') = Inr (taxUsd t)"
    and g0: "amountGrossUsd t = DividendTransaction.amountNetUsd t + taxUsd t"
    and g: "amountGrossJpy t = Math_floor (amountGrossUsd t * DividendTransaction.rate t)"
      "taxJpy t = Math_floor (taxUsd t * DividendTransaction.rate t)"
      "DividendTransaction.amountNetJpy t
         = Math_floor (DividendTransaction.amountNetUsd t * DividendTransaction.rate t)"
    by blast+
  have dbl: "\<forall>a b. DividendTransaction.amountNetUsd t = Num a \<and> taxUsd t = Num b
           \<longrightarrow> amountGrossUsd t = toDouble (a + b)"
    using g0 by simp
  have src: "\<exists>row\<in>set rows.
           DividendTransaction.amountNetUsd t = parseMoney E (row ''Amount'')
           \<and> extractTaxFromDescription E (row ''Description'') = Inr (taxUsd t)"
    using row f by blast
  obtain t' where c: "calculateDividends refExterns [rowDividend] specRates = Inr [t']"
    and v: "(DividendTransaction.amountNetUsd t', taxUsd t', amountGrossUsd t',
        amountGrossJpy t', taxJpy t', DividendTransaction.amountNetJpy t')
      = (Num 8.5, Num 1.5, Num 10, Num 1452, Num 217, Num 1234)"
    using rowDividend_calculated by (rule map_sum_Inr_singleton)
  from c v have ex: "\<exists>t'. calculateDividends refExterns [rowDividend] specRates = Inr [t']
           \<and> amountGrossJpy t' = Num 1452
           \<and> taxJpy t' = Num 217 \<and> DividendTransaction.amountNetJpy t' = Num 1234"
    by simp
  from g0 dbl g src ex show ?thesis by blast
qed

text \<open>The dividend scenario of the specification: 8.50 net and 1.50 tax at 145.2.\<close>

theorem calculateDividends_gross_net_tax_witness:
  "map_sum (\<lambda>e. e)
     (map (\<lambda>t. (DividendTransaction.amountNetUsd t, taxUsd t, amountGrossUsd t,
        amountGrossJpy t, taxJpy t, DividendTransaction.amountNetJpy t)))
     (calculateDividends refExterns [rowDividend] specRates)
   = Inr [(Num 8.5, Num 1.5, toDouble (8.5 + 1.5), Num 1452, Num 217, Num 1234)]"
proof -
  obtain t where calc: "calculateDividends refExterns [rowDividend] specRates = Inr [t]"
    and v: "(DividendTransaction.amountNetUsd t, taxUsd t, amountGrossUsd t,
        amountGrossJpy t, taxJpy t, DividendTransaction.amountNetJpy t)
      = (Num 8.5, Num 1.5, Num 10, Num 1452, Num 217, Num 1234)"
    using rowDividend_calculated by (rule map_sum_Inr_singleton)
  have mem: "t \<in> set [t]" by simp
  have ab: "DividendTransaction.amountNetUsd t = Num 8.5 \<and> taxUsd t = Num 1.5"
    using v by simp
  from calculateDividends_gross_net_tax[OF calc mem]
  have "\<forall>a b. DividendTransaction.amountNetUsd t = Num a \<and> taxUsd t = Num b
           \<longrightarrow> amountGrossUsd t = toDouble (a + b)"
    by blast
  from this[rule_format, OF ab] have "amountGrossUsd t = toDouble (8.5 + 1.5)" .
  then show ?thesis using calc v by simp
qed

text \<open>
  C5 as the spec states it fails: the net amount of the row is the double next to 0.1 and
  its tax the double next to 0.2, and \<open>amountGrossUsd\<close> is the double next to 0.3 above
  their sum, not their sum.
\<close>

theorem calculateDividends_gross_rounded:
  "map_sum (\<lambda>e. e)
     (map (\<lambda>t. (DividendTransaction.amountNetUsd t, taxUsd t, amountGrossUsd t)))
     (calculateDividends refExterns [rowTenths] specRates)
   = Inr [(Num (3602879701896397 / 36028797018963968), Num (3602879701896397 / 18014398509481984),
           Num (1351079888211149 / 4503599627370496))]
   \<and> (3602879701896397 / 36028797018963968 + 3602879701896397 / 18014398509481984 :: real)
       \<noteq> 1351079888211149 / 4503599627370496"
  by (simp add: calc_eval ref_eval rowTenths_def specRates_def)

text \<open>
  C6, as the code has it. Each calculator gives a record the index of its row in the
  input as identity, and drops the rows whose date does not parse afterwards: the
  identities of the output are, in order, the indices of the rows that are kept. They are
  \<open>0, 1, 2, ...\<close> without gaps only as far as no row is dropped.
\<close>

theorem calculators_identity_is_row_index:
  "(calculateGainLoss E grows table = Inr gs \<longrightarrow>
      map JpyTransaction.id gs
        = filter (\<lambda>i. parseDateAny E ((grows ! i) ''Date Sold'') \<noteq> None) [0..<length grows])
   \<and> (calculateDividends E hrows table = Inr ds \<longrightarrow>
      map DividendTransaction.id ds
        = filter (\<lambda>i. parseDateAny E ((hrows ! i) ''TradeDate'') \<noteq> None) [0..<length hrows])
   \<and> (calculateInterests E hrows table = Inr ns \<longrightarrow>
      map InterestTransaction.id ns
        = filter (\<lambda>i. parseDateAny E ((hrows ! i) ''TradeDate'') \<noteq> None) [0..<length hrows])"
proof (intro conjI impI)
  assume "calculateGainLoss E grows table = Inr gs"
  then obtain ys where m: "mapIdx (gainLossOfRow E table) grows 0 = Inr ys"
    and out: "gs = filterBoolean ys" by (rule calculateGainLoss_rows)
  have "map JpyTransaction.id (filterBoolean ys)
      = map (\<lambda>i. 0 + i)
          (filter (\<lambda>i. parseDateAny E ((grows ! i) ''Date Sold'') \<noteq> None) [0..<length grows])"
  proof (rule mapIdx_ids[OF _ _ m])
    show "JpyTransaction.id t = idx \<and> parseDateAny E (row ''Date Sold'') \<noteq> None"
      if "gainLossOfRow E table row idx = Inr (Some t)" for row idx t
      using gainLossOfRow_Some[OF that] by auto
    show "\<not> parseDateAny E (row ''Date Sold'') \<noteq> None"
      if "gainLossOfRow E table row idx = Inr None" for row idx
      using that by (simp add: gainLossOfRow_None)
  qed
  then show "map JpyTransaction.id gs
      = filter (\<lambda>i. parseDateAny E ((grows ! i) ''Date Sold'') \<noteq> None) [0..<length grows]"
    using out by simp
next
  assume "calculateDividends E hrows table = Inr ds"
  then obtain ys where m: "mapIdx (dividendOfRow E table) hrows 0 = Inr ys"
    and out: "ds = filterBoolean ys" by (auto simp: calculateDividends_def split: sum.splits)
  have "map DividendTransaction.id (filterBoolean ys)
      = map (\<lambda>i. 0 + i)
          (filter (\<lambda>i. parseDateAny E ((hrows ! i) ''TradeDate'') \<noteq> None) [0..<length hrows])"
  proof (rule mapIdx_ids[OF _ _ m])
    show "DividendTransaction.id t = idx \<and> parseDateAny E (row ''TradeDate'') \<noteq> None"
      if "dividendOfRow E table row idx = Inr (Some t)" for row idx t
      using dividendOfRow_Some[OF that] by auto
    show "\<not> parseDateAny E (row ''TradeDate'') \<noteq> None"
      if "dividendOfRow E table row idx = Inr None" for row idx
      using that by (simp add: dividendOfRow_None)
  qed
  then show "map DividendTransaction.id ds
      = filter (\<lambda>i. parseDateAny E ((hrows ! i) ''TradeDate'') \<noteq> None) [0..<length hrows]"
    using out by simp
next
  assume "calculateInterests E hrows table = Inr ns"
  then obtain ys where m: "mapIdx (interestOfRow E table) hrows 0 = Inr ys"
    and out: "ns = filterBoolean ys" by (auto simp: calculateInterests_def split: sum.splits)
  have "map InterestTransaction.id (filterBoolean ys)
      = map (\<lambda>i. 0 + i)
          (filter (\<lambda>i. parseDateAny E ((hrows ! i) ''TradeDate'') \<noteq> None) [0..<length hrows])"
  proof (rule mapIdx_ids[OF _ _ m])
    show "InterestTransaction.id t = idx \<and> parseDateAny E (row ''TradeDate'') \<noteq> None"
      if "interestOfRow E table row idx = Inr (Some t)" for row idx t
      using interestOfRow_Some[OF that] by auto
    show "\<not> parseDateAny E (row ''TradeDate'') \<noteq> None"
      if "interestOfRow E table row idx = Inr None" for row idx
      using that by (simp add: interestOfRow_None)
  qed
  then show "map InterestTransaction.id ns
      = filter (\<lambda>i. parseDateAny E ((hrows ! i) ''TradeDate'') \<noteq> None) [0..<length hrows]"
    using out by simp
qed

lemma undated_then_dated_calculated:
  "map_sum (\<lambda>e. e) (map JpyTransaction.id)
       (calculateGainLoss refExterns [rowUndated, rowAAPL] specRates) = Inr [1]
   \<and> map_sum (\<lambda>e. e) (map DividendTransaction.id)
       (calculateDividends refExterns [rowPending, rowDividend] specRates) = Inr [1]
   \<and> map_sum (\<lambda>e. e) (map InterestTransaction.id)
       (calculateInterests refExterns [rowPending, rowInterest] specRates) = Inr [1]"
  by (simp add: calc_eval ref_eval rowUndated_def rowAAPL_def rowPending_def rowDividend_def
      rowInterest_def specRates_def)

text \<open>
  A row without a date before a dated row: the one record of the output has the identity
  \<open>1\<close>, the index of its row.
\<close>

theorem calculators_identity_is_row_index_witness:
  "map_sum (\<lambda>e. e) (map JpyTransaction.id)
       (calculateGainLoss refExterns [rowUndated, rowAAPL] specRates)
     = Inr (filter (\<lambda>i. parseDateAny refExterns (([rowUndated, rowAAPL] ! i) ''Date Sold'') \<noteq> None)
              [0, 1])
   \<and> map_sum (\<lambda>e. e) (map DividendTransaction.id)
       (calculateDividends refExterns [rowPending, rowDividend] specRates)
     = Inr (filter (\<lambda>i. parseDateAny refExterns (([rowPending, rowDividend] ! i) ''TradeDate'') \<noteq> None)
              [0, 1])
   \<and> map_sum (\<lambda>e. e) (map InterestTransaction.id)
       (calculateInterests refExterns [rowPending, rowInterest] specRates)
     = Inr (filter (\<lambda>i. parseDateAny refExterns (([rowPending, rowInterest] ! i) ''TradeDate'') \<noteq> None)
              [0, 1])"
proof -
  have upt2: "[0..<length [a, b]] = [0, 1]" for a b :: CsvRow
    by (simp add: upt_conv_Cons)
  obtain gs where g: "calculateGainLoss refExterns [rowUndated, rowAAPL] specRates = Inr gs"
    using undated_then_dated_calculated[THEN conjunct1] by (rule map_sum_Inr)
  obtain ds where d: "calculateDividends refExterns [rowPending, rowDividend] specRates = Inr ds"
    using undated_then_dated_calculated[THEN conjunct2, THEN conjunct1] by (rule map_sum_Inr)
  obtain ns where n: "calculateInterests refExterns [rowPending, rowInterest] specRates = Inr ns"
    using undated_then_dated_calculated[THEN conjunct2, THEN conjunct2] by (rule map_sum_Inr)
  note a = calculators_identity_is_row_index[of refExterns "[rowUndated, rowAAPL]" specRates gs
      "[rowPending, rowDividend]" ds ns, THEN conjunct1, rule_format, OF g]
  note b = calculators_identity_is_row_index[of refExterns "[rowUndated, rowAAPL]" specRates gs
      "[rowPending, rowDividend]" ds ns, THEN conjunct2, THEN conjunct1, rule_format, OF d]
  note c = calculators_identity_is_row_index[of refExterns "[rowUndated, rowAAPL]" specRates gs
      "[rowPending, rowInterest]" ds ns, THEN conjunct2, THEN conjunct2, rule_format, OF n]
  show ?thesis
    using a b c unfolding upt2 g d n by simp
qed

text \<open>
  C6 as the spec states it fails on the same inputs: the identities of the three outputs
  are \<open>[1]\<close>, not the dense \<open>[0]\<close>.
\<close>

theorem calculators_identity_not_dense:
  "map_sum (\<lambda>e. e) (map JpyTransaction.id)
       (calculateGainLoss refExterns [rowUndated, rowAAPL] specRates) = Inr [1]
   \<and> map_sum (\<lambda>e. e) (map DividendTransaction.id)
       (calculateDividends refExterns [rowPending, rowDividend] specRates) = Inr [1]
   \<and> map_sum (\<lambda>e. e) (map InterestTransaction.id)
       (calculateInterests refExterns [rowPending, rowInterest] specRates) = Inr [1]"
  by (simp add: calc_eval ref_eval rowUndated_def rowAAPL_def rowPending_def rowDividend_def
      rowInterest_def specRates_def)

section \<open>Properties of file processing\<close>

lemma findIndex_Some:
  "findIndex P xs = Some i \<Longrightarrow> i < length xs \<and> P (xs ! i) \<and> (\<forall>j<i. \<not> P (xs ! j))"
proof (induction xs arbitrary: i)
  case Nil
  then show ?case by simp
next
  case (Cons x xs)
  show ?case
  proof (cases "P x")
    case True
    with Cons.prems show ?thesis by simp
  next
    case False
    with Cons.prems obtain k where k: "findIndex P xs = Some k" and i: "i = Suc k"
      by (auto split: option.splits)
    from Cons.IH[OF k] False i show ?thesis
      by (auto simp: nth_Cons split: nat.splits)
  qed
qed

lemma fileLines_empty: "fileLines [] = []"
  by (simp add: fileLines_def space_eval)

text \<open>
  What the history branch stores when the file has a dividend row: the rows with action
  \<open>Dividend\<close> as \<open>dividendRaw\<close>, and the rows with action \<open>Interest\<close>, if there are any, as
  \<open>interestRaw\<close>, whether or not a calculator throws afterwards.
\<close>

lemma parseComplete_history_with_dividends:
  assumes "filter (\<lambda>r. r ''Action'' = Some ''Dividend'') data \<noteq> []"
    and "s' = (case parseComplete E HISTORY data s of Inl (e, s1) \<Rightarrow> s1 | Inr s1 \<Rightarrow> s1)"
  shows "dividendRaw s' = Some (filter (\<lambda>r. r ''Action'' = Some ''Dividend'') data)
     \<and> interestRaw s' =
         (if filter (\<lambda>r. r ''Action'' = Some ''Interest'') data \<noteq> []
          then Some (filter (\<lambda>r. r ''Action'' = Some ''Interest'') data) else interestRaw s)"
  using assms by (auto simp: parseComplete_def Let_def split: sum.splits)

lemmas file_eval =
  processFile_def fileLines_def space_eval isHeaderLine_def toLowerCase_def
  lowerChar_def fileTypeOfHeader_def refPapaParse_def parseComplete_def Let_def

text \<open>
  C7 on a history file whose only row is an interest row. The file is classified as
  history, the history branch finds no dividend row, reports that and stops: the interest
  row is not stored, \<open>interestRaw\<close> stays \<open>null\<close>. The fallback branch of the same
  callback, given the same rows, stores them as \<open>interestRaw\<close> and opens the interest tab.
\<close>

theorem processFile_interest_only_history:
  "processFile refExterns refPapaParse interestOnlyFile (initialState (Num 2023))
     = parseComplete refExterns HISTORY [rowInterest] (initialState (Num 2023))
   \<and> parseComplete refExterns HISTORY [rowInterest] (initialState (Num 2023))
     = Inr ((initialState (Num 2023))\<lparr>error := Some NoDividendRows, loading := False\<rparr>)
   \<and> interestRaw ((initialState (Num 2023) :: CalDate AppState)
        \<lparr>error := Some NoDividendRows, loading := False\<rparr>) = None
   \<and> parseComplete refExterns UNKNOWN [rowInterest] (initialState (Num 2023))
     = Inr ((initialState (Num 2023))
          \<lparr>interestRaw := Some [rowInterest], activeTab := interest, loading := False\<rparr>)"
proof -
  have rows: "refPapaParse interestOnlyFile = Inr [rowInterest]"
    by (simp add: refPapaParse_def interestOnlyFile_def rowInterest_def)
  have "processFile refExterns refPapaParse interestOnlyFile (initialState (Num 2023))
      = Inr ((initialState (Num 2023))\<lparr>error := Some NoDividendRows, loading := False\<rparr>)"
    by (simp add: file_eval interestOnlyFile_def)
  moreover have "parseComplete refExterns HISTORY [rowInterest] (initialState (Num 2023))
      = Inr ((initialState (Num 2023))\<lparr>error := Some NoDividendRows, loading := False\<rparr>)"
    by (simp add: parseComplete_def rowInterest_def)
  moreover have "interestRaw ((initialState (Num 2023) :: CalDate AppState)
        \<lparr>error := Some NoDividendRows, loading := False\<rparr>) = None"
    by (simp add: initialState_def)
  moreover have "parseComplete refExterns UNKNOWN [rowInterest] (initialState (Num 2023))
     = Inr ((initialState (Num 2023))
          \<lparr>interestRaw := Some [rowInterest], activeTab := interest, loading := False\<rparr>)"
    by (simp add: parseComplete_def rowInterest_def truthyStr_def Let_def)
  ultimately show ?thesis by simp
qed

text \<open>
  C8. Let the header line be found at index \<open>i\<close> of the non-empty trimmed lines. If the
  line, in lower case, contains \<open>sales proceeds\<close>, \<open>processFile\<close> runs the callback with
  the file type \<open>GAIN_LOSS\<close>; if it does not, and contains both \<open>action\<close> and \<open>amount\<close>, with
  the file type \<open>HISTORY\<close>. The callback receives the rows that \<open>Papa.parse\<close> reads from the
  header line onward.
\<close>

theorem processFile_classifies_header:
  assumes "findIndex isHeaderLine (fileLines text) = Some i"
  shows "(str_includes (toLowerCase (fileLines text ! i)) ''sales proceeds'' \<longrightarrow>
        processFile E papaParse text s =
          (case papaParse (joinNewline (drop i (fileLines text))) of
             Inl msg \<Rightarrow> Inr (s\<lparr>error := Some (ParseFailed msg), loading := False\<rparr>)
           | Inr data \<Rightarrow> parseComplete E GAIN_LOSS data s))
     \<and> (\<not> str_includes (toLowerCase (fileLines text ! i)) ''sales proceeds''
        \<and> str_includes (toLowerCase (fileLines text ! i)) ''action''
        \<and> str_includes (toLowerCase (fileLines text ! i)) ''amount'' \<longrightarrow>
        processFile E papaParse text s =
          (case papaParse (joinNewline (drop i (fileLines text))) of
             Inl msg \<Rightarrow> Inr (s\<lparr>error := Some (ParseFailed msg), loading := False\<rparr>)
           | Inr data \<Rightarrow> parseComplete E HISTORY data s))"
proof -
  have "text \<noteq> []"
    using assms fileLines_empty by auto
  then show ?thesis
    using assms by (auto simp: processFile_def fileTypeOfHeader_def Let_def)
qed

lemma gainLossFile_lines:
  "fileLines gainLossFile =
     [''Realized Gain/Loss'',
      ''Symbol,Quantity,Date Acquired,Date Sold,Sales Proceeds,Adjust Cost'',
      ''AAPL,10,01/02/2023,03/04/2023,1500.00,1000.00'']"
  by (simp add: fileLines_def gainLossFile_def space_eval)

lemma interestOnlyFile_lines:
  "fileLines interestOnlyFile =
     [''Symbol,Action,Description,TradeDate,Amount'',
      ''CASH,Interest,INTEREST ON CREDIT BALANCE,2023-06-15,1.25'']"
  by (simp add: fileLines_def interestOnlyFile_def space_eval)

text \<open>
  The gain/loss file, whose header is its second line, and the history file, whose header
  is its first.
\<close>

theorem processFile_classifies_header_witness:
  "findIndex isHeaderLine (fileLines gainLossFile) = Some 1
   \<and> str_includes (toLowerCase (fileLines gainLossFile ! 1)) ''sales proceeds''
   \<and> processFile refExterns refPapaParse gainLossFile (initialState (Num 2023))
     = parseComplete refExterns GAIN_LOSS
         [map_of (zip
            [''Symbol'', ''Quantity'', ''Date Acquired'', ''Date Sold'', ''Sales Proceeds'', ''Adjust Cost'']
            [''AAPL'', ''10'', ''01/02/2023'', ''03/04/2023'', ''1500.00'', ''1000.00''])]
         (initialState (Num 2023))
   \<and> findIndex isHeaderLine (fileLines interestOnlyFile) = Some 0
   \<and> str_includes (toLowerCase (fileLines interestOnlyFile ! 0)) ''action''
   \<and> str_includes (toLowerCase (fileLines interestOnlyFile ! 0)) ''amount''
   \<and> processFile refExterns refPapaParse interestOnlyFile (initialState (Num 2023))
     = parseComplete refExterns HISTORY [rowInterest] (initialState (Num 2023))"
proof -
  have g: "findIndex isHeaderLine (fileLines gainLossFile) = Some 1"
    unfolding gainLossFile_lines by (simp add: isHeaderLine_def toLowerCase_def lowerChar_def)
  have gs: "str_includes (toLowerCase (fileLines gainLossFile ! 1)) ''sales proceeds''"
    unfolding gainLossFile_lines by (simp add: toLowerCase_def lowerChar_def)
  have gp: "refPapaParse (joinNewline (drop 1 (fileLines gainLossFile)))
      = Inr [map_of (zip
            [''Symbol'', ''Quantity'', ''Date Acquired'', ''Date Sold'', ''Sales Proceeds'', ''Adjust Cost'']
            [''AAPL'', ''10'', ''01/02/2023'', ''03/04/2023'', ''1500.00'', ''1000.00''])]"
    unfolding gainLossFile_lines by (simp add: refPapaParse_def)
  have h: "findIndex isHeaderLine (fileLines interestOnlyFile) = Some 0"
    unfolding interestOnlyFile_lines by (simp add: isHeaderLine_def toLowerCase_def lowerChar_def)
  have hs: "\<not> str_includes (toLowerCase (fileLines interestOnlyFile ! 0)) ''sales proceeds''"
    and ha: "str_includes (toLowerCase (fileLines interestOnlyFile ! 0)) ''action''"
    and hm: "str_includes (toLowerCase (fileLines interestOnlyFile ! 0)) ''amount''"
    unfolding interestOnlyFile_lines by (simp_all add: toLowerCase_def lowerChar_def)
  have hp: "refPapaParse (joinNewline (drop 0 (fileLines interestOnlyFile))) = Inr [rowInterest]"
    unfolding interestOnlyFile_lines by (simp add: refPapaParse_def rowInterest_def)
  from processFile_classifies_header[OF g, of refExterns refPapaParse "initialState (Num 2023)",
      THEN conjunct1, rule_format, OF gs]
  have a: "processFile refExterns refPapaParse gainLossFile (initialState (Num 2023))
     = parseComplete refExterns GAIN_LOSS
         [map_of (zip
            [''Symbol'', ''Quantity'', ''Date Acquired'', ''Date Sold'', ''Sales Proceeds'', ''Adjust Cost'']
            [''AAPL'', ''10'', ''01/02/2023'', ''03/04/2023'', ''1500.00'', ''1000.00''])]
         (initialState (Num 2023))"
    unfolding gp by simp
  from processFile_classifies_header[OF h, of refExterns refPapaParse "initialState (Num 2023)",
      THEN conjunct2, rule_format, OF conjI[OF hs conjI[OF ha hm]]]
  have b: "processFile refExterns refPapaParse interestOnlyFile (initialState (Num 2023))
     = parseComplete refExterns HISTORY [rowInterest] (initialState (Num 2023))"
    unfolding hp by simp
  show ?thesis using g gs a h ha hm b by simp
qed

section \<open>Properties of filtering and aggregation\<close>

text \<open>
  C9. A record is in a filtered view exactly when it is in the derived collection and the
  year of its governing date is strictly equal to the selected year. Selecting another
  year changes the selected year and nothing else: the three derived collections, the raw
  rows and the rate table are the same, and the views follow the new year.
\<close>

theorem year_filter_and_frame:
  "(t \<in> set (filteredGainLoss E s) \<longleftrightarrow>
      t \<in> set (gainLossData s) \<and> strict_eq (getFullYear E (dateSold t)) (selectedYear s))
   \<and> (d \<in> set (filteredDividends E s) \<longleftrightarrow>
      d \<in> set (dividendData s)
      \<and> strict_eq (getFullYear E (DividendTransaction.date d)) (selectedYear s))
   \<and> (n \<in> set (filteredInterests E s) \<longleftrightarrow>
      n \<in> set (interestData s)
      \<and> strict_eq (getFullYear E (InterestTransaction.date n)) (selectedYear s))
   \<and> selectedYear (setSelectedYear y s) = y
   \<and> gainLossData (setSelectedYear y s) = gainLossData s
   \<and> dividendData (setSelectedYear y s) = dividendData s
   \<and> interestData (setSelectedYear y s) = interestData s
   \<and> gainLossRaw (setSelectedYear y s) = gainLossRaw s
   \<and> dividendRaw (setSelectedYear y s) = dividendRaw s
   \<and> interestRaw (setSelectedYear y s) = interestRaw s
   \<and> rates (setSelectedYear y s) = rates s
   \<and> filteredGainLoss E (setSelectedYear y s)
       = filter (\<lambda>t. strict_eq (getFullYear E (dateSold t)) y) (gainLossData s)"
  by (simp add: filteredGainLoss_def filteredDividends_def filteredInterests_def
      setSelectedYear_def)

lemma exampleState_calculated:
  "map_sum (\<lambda>e. e)
     (map (\<lambda>t. (JpyTransaction.id t, JpyTransaction.symbol t, dateSold t,
        proceedsJpy t, costJpy t, gainLossJpy t)))
     (calculateGainLoss refExterns [rowAAPL, rowVarious, rowCents, rowOld] specRates)
   = Inr [(0, Some ''AAPL'', Date 2023 3 4, Num 210000, Num 130000, Num 80000),
          (1, Some ''MSFT'', Date 2023 3 4, Num 126000, Num 84000, Num 42000),
          (2, Some ''AAPL'', Date 2023 3 4, Num 1401, Num 1302, Num 99),
          (3, Some ''MSFT'', Date 2022 12 30, Num 53000, Num 66250, Num (- 13250))]"
  by (simp add: calc_eval ref_eval rowAAPL_def rowVarious_def rowCents_def rowOld_def specRates_def)

lemma exampleState_data:
  "calculateGainLoss refExterns [rowAAPL, rowVarious, rowCents, rowOld] specRates
     = Inr (gainLossData exampleState)"
proof -
  obtain out where "calculateGainLoss refExterns [rowAAPL, rowVarious, rowCents, rowOld] specRates
      = Inr out"
    using exampleState_calculated by (rule map_sum_Inr)
  then show ?thesis by (simp add: exampleState_def)
qed

lemma exampleState_fields:
  "map (\<lambda>t. (JpyTransaction.id t, JpyTransaction.symbol t, dateSold t,
        proceedsJpy t, costJpy t, gainLossJpy t)) (gainLossData exampleState)
   = [(0, Some ''AAPL'', Date 2023 3 4, Num 210000, Num 130000, Num 80000),
      (1, Some ''MSFT'', Date 2023 3 4, Num 126000, Num 84000, Num 42000),
      (2, Some ''AAPL'', Date 2023 3 4, Num 1401, Num 1302, Num 99),
      (3, Some ''MSFT'', Date 2022 12 30, Num 53000, Num 66250, Num (- 13250))]"
  using exampleState_calculated unfolding exampleState_data by simp

lemma exampleState_year: "selectedYear exampleState = Num 2023"
  by (simp add: exampleState_def initialState_def)

text \<open>
  Four records, three sold in 2023 and one in 2022: the view of 2023 holds the first
  three, the view of 2022 the last, and the collection is the same under both.
\<close>

theorem year_filter_and_frame_witness:
  "map JpyTransaction.id (gainLossData exampleState) = [0, 1, 2, 3]
   \<and> map JpyTransaction.id (filteredGainLoss refExterns exampleState) = [0, 1, 2]
   \<and> map JpyTransaction.id (filteredGainLoss refExterns (setSelectedYear (Num 2022) exampleState)) = [3]
   \<and> gainLossData (setSelectedYear (Num 2022) exampleState) = gainLossData exampleState"
proof -
  obtain a b c d where data: "gainLossData exampleState = [a, b, c, d]"
    and f: "(JpyTransaction.id a, JpyTransaction.symbol a, dateSold a, proceedsJpy a, costJpy a, gainLossJpy a)
          = (0, Some ''AAPL'', Date 2023 3 4, Num 210000, Num 130000, Num 80000)"
      "(JpyTransaction.id b, JpyTransaction.symbol b, dateSold b, proceedsJpy b, costJpy b, gainLossJpy b)
          = (1, Some ''MSFT'', Date 2023 3 4, Num 126000, Num 84000, Num 42000)"
      "(JpyTransaction.id c, JpyTransaction.symbol c, dateSold c, proceedsJpy c, costJpy c, gainLossJpy c)
          = (2, Some ''AAPL'', Date 2023 3 4, Num 1401, Num 1302, Num 99)"
      "(JpyTransaction.id d, JpyTransaction.symbol d, dateSold d, proceedsJpy d, costJpy d, gainLossJpy d)
          = (3, Some ''MSFT'', Date 2022 12 30, Num 53000, Num 66250, Num (- 13250))"
    using exampleState_fields by (auto simp: map_eq_Cons_conv)
  note frame = year_filter_and_frame[of a refExterns exampleState _ _ "Num 2022"]
  have keep: "gainLossData (setSelectedYear (Num 2022) exampleState) = gainLossData exampleState"
    using frame by simp
  have view: "filteredGainLoss refExterns (setSelectedYear (Num 2022) exampleState)
      = filter (\<lambda>t. strict_eq (getFullYear refExterns (dateSold t)) (Num 2022)) (gainLossData exampleState)"
    using frame by simp
  have "map JpyTransaction.id (filteredGainLoss refExterns (setSelectedYear (Num 2022) exampleState)) = [3]"
    unfolding view data using f by (simp add: refExterns_def)
  moreover have "map JpyTransaction.id (filteredGainLoss refExterns exampleState) = [0, 1, 2]"
    unfolding filteredGainLoss_def exampleState_year data using f by (simp add: refExterns_def)
  moreover have "map JpyTransaction.id (gainLossData exampleState) = [0, 1, 2, 3]"
    unfolding data using f by simp
  ultimately show ?thesis using keep by simp
qed

lemma magnitude_nonneg: "0 \<le> magnitude x"
  by (cases x) simp_all

text \<open>
  Sums of integers whose magnitudes add up to at most \<open>2^53\<close> are exact in doubles, and
  so is the sum of their differences.
\<close>

lemma sums_step:
  assumes "P \<in> \<int>" "C \<in> \<int>" "p \<in> \<int>" "c \<in> \<int>"
    and b: "\<bar>P\<bar> + \<bar>C\<bar> + (\<bar>p\<bar> + \<bar>c\<bar>) \<le> 2 ^ 53"
  shows "Num P + Num p = Num (P + p)"
    and "Num C + Num c = Num (C + c)"
    and "Num (P - C) + (Num p - Num c) = Num ((P + p) - (C + c))"
proof -
  show "Num P + Num p = Num (P + p)"
    using assms(1,3) by (rule plus_exact) (use b in linarith)
  show "Num C + Num c = Num (C + c)"
    using assms(2,4) by (rule plus_exact) (use b in linarith)
  have d: "Num p - Num c = Num (p - c)"
    using assms(3,4) by (rule minus_exact) (use b in linarith)
  have "P - C \<in> \<int>" "p - c \<in> \<int>" using assms(1-4) by simp_all
  then have "Num (P - C) + Num (p - c) = Num ((P - C) + (p - c))"
    by (rule plus_exact) (use b in linarith)
  also have "(P - C) + (p - c) = (P + p) - (C + c)" by simp
  finally show "Num (P - C) + (Num p - Num c) = Num ((P + p) - (C + c))"
    using d by simp
qed

lemma setProperty_set: "set (setProperty k v kvs) \<subseteq> insert (k, v) (set kvs)"
  by (induction kvs) (auto split: if_splits)

lemma addToGroup_consistent:
  assumes inv: "\<forall>(k, g)\<in>set groups. \<exists>P C. proceeds (summary g) = Num P \<and> cost (summary g) = Num C
        \<and> gainLoss (summary g) = Num (P - C) \<and> P \<in> \<int> \<and> C \<in> \<int> \<and> \<bar>P\<bar> + \<bar>C\<bar> \<le> B"
    and t: "proceedsJpy t = Num p" "costJpy t = Num c" "p \<in> \<int>" "c \<in> \<int>"
      "gainLossJpy t = proceedsJpy t - costJpy t"
    and b: "0 \<le> B" "B + (\<bar>p\<bar> + \<bar>c\<bar>) \<le> 2 ^ 53"
    and a: "addToGroup t groups = Inr groups'"
  shows "\<forall>(k, g)\<in>set groups'. \<exists>P C. proceeds (summary g) = Num P \<and> cost (summary g) = Num C
        \<and> gainLoss (summary g) = Num (P - C) \<and> P \<in> \<int> \<and> C \<in> \<int>
        \<and> \<bar>P\<bar> + \<bar>C\<bar> \<le> B + (\<bar>p\<bar> + \<bar>c\<bar>)"
proof -
  define key where "key = toString (JpyTransaction.symbol t)"
  define g0 :: "'a Group" where "g0 =
    (case map_of groups key of
       None \<Rightarrow> \<lparr>summary = \<lparr>proceeds = 0, cost = 0, gainLoss = 0, proceedsUsd = 0,
                    costUsd = 0, gainLossUsd = 0\<rparr>, transactions = []\<rparr>
     | Some g \<Rightarrow> g)"
  define g1 :: "'a Group" where "g1 =
    \<lparr>summary =
       \<lparr>proceeds = proceeds (summary g0) + proceedsJpy t,
        cost = cost (summary g0) + costJpy t,
        gainLoss = gainLoss (summary g0) + gainLossJpy t,
        proceedsUsd = proceedsUsd (summary g0) + JpyTransaction.proceedsUsd t,
        costUsd = costUsd (summary g0) + JpyTransaction.costUsd t,
        gainLossUsd =
          gainLossUsd (summary g0) + (JpyTransaction.proceedsUsd t - JpyTransaction.costUsd t)\<rparr>,
     transactions = transactions g0 @ [t]\<rparr>"
  have new: "groups' = setProperty key g1 groups"
    using a unfolding addToGroup_def key_def g0_def g1_def
    by (simp add: Let_def split: if_splits)
  have "\<exists>P C. proceeds (summary g0) = Num P \<and> cost (summary g0) = Num C
        \<and> gainLoss (summary g0) = Num (P - C) \<and> P \<in> \<int> \<and> C \<in> \<int> \<and> \<bar>P\<bar> + \<bar>C\<bar> \<le> B"
  proof (cases "map_of groups key")
    case None
    have "(0 :: number) = Num 0" by (simp add: zero_number_def)
    then have "proceeds (summary g0) = Num 0 \<and> cost (summary g0) = Num 0
        \<and> gainLoss (summary g0) = Num (0 - 0) \<and> (0 :: real) \<in> \<int> \<and> (0 :: real) \<in> \<int>
        \<and> \<bar>0 :: real\<bar> + \<bar>0\<bar> \<le> B"
      using None b(1) by (simp add: g0_def)
    then show ?thesis by blast
  next
    case (Some g)
    then have "(key, g) \<in> set groups" by (rule map_of_SomeD)
    then show ?thesis using inv Some by (auto simp: g0_def)
  qed
  then obtain P C where old: "proceeds (summary g0) = Num P" "cost (summary g0) = Num C"
    "gainLoss (summary g0) = Num (P - C)" "P \<in> \<int>" "C \<in> \<int>" "\<bar>P\<bar> + \<bar>C\<bar> \<le> B"
    by blast
  have bound: "\<bar>P\<bar> + \<bar>C\<bar> + (\<bar>p\<bar> + \<bar>c\<bar>) \<le> 2 ^ 53" using old(6) b(2) by linarith
  note step = sums_step[OF old(4,5) t(3,4) bound]
  have "proceeds (summary g1) = Num (P + p) \<and> cost (summary g1) = Num (C + c)
        \<and> gainLoss (summary g1) = Num ((P + p) - (C + c)) \<and> P + p \<in> \<int> \<and> C + c \<in> \<int>
        \<and> \<bar>P + p\<bar> + \<bar>C + c\<bar> \<le> B + (\<bar>p\<bar> + \<bar>c\<bar>)"
    using old t step by (simp add: g1_def)
  then have g1: "\<exists>P C. proceeds (summary g1) = Num P \<and> cost (summary g1) = Num C
        \<and> gainLoss (summary g1) = Num (P - C) \<and> P \<in> \<int> \<and> C \<in> \<int>
        \<and> \<bar>P\<bar> + \<bar>C\<bar> \<le> B + (\<bar>p\<bar> + \<bar>c\<bar>)"
    by blast
  have others: "\<exists>P C. proceeds (summary g) = Num P \<and> cost (summary g) = Num C
        \<and> gainLoss (summary g) = Num (P - C) \<and> P \<in> \<int> \<and> C \<in> \<int>
        \<and> \<bar>P\<bar> + \<bar>C\<bar> \<le> B + (\<bar>p\<bar> + \<bar>c\<bar>)" if "(k, g) \<in> set groups" for k g
  proof -
    from inv that obtain P C where "proceeds (summary g) = Num P" "cost (summary g) = Num C"
      "gainLoss (summary g) = Num (P - C)" "P \<in> \<int>" "C \<in> \<int>" "\<bar>P\<bar> + \<bar>C\<bar> \<le> B"
      by blast
    moreover from this have "\<bar>P\<bar> + \<bar>C\<bar> \<le> B + (\<bar>p\<bar> + \<bar>c\<bar>)" by linarith
    ultimately show ?thesis by blast
  qed
  show ?thesis
  proof (clarify)
    fix k g assume "(k, g) \<in> set groups'"
    then have "(k, g) = (key, g1) \<or> (k, g) \<in> set groups"
      using setProperty_set[of key g1 groups] unfolding new by auto
    then show "\<exists>P C. proceeds (summary g) = Num P \<and> cost (summary g) = Num C
        \<and> gainLoss (summary g) = Num (P - C) \<and> P \<in> \<int> \<and> C \<in> \<int>
        \<and> \<bar>P\<bar> + \<bar>C\<bar> \<le> B + (\<bar>p\<bar> + \<bar>c\<bar>)"
      using g1 others by auto
  qed
qed

lemma forEachGroup_consistent:
  assumes "\<forall>t\<in>set ts. \<exists>p c. proceedsJpy t = Num p \<and> costJpy t = Num c \<and> p \<in> \<int> \<and> c \<in> \<int>
        \<and> gainLossJpy t = proceedsJpy t - costJpy t"
    and "\<forall>(k, g)\<in>set groups. \<exists>P C. proceeds (summary g) = Num P \<and> cost (summary g) = Num C
        \<and> gainLoss (summary g) = Num (P - C) \<and> P \<in> \<int> \<and> C \<in> \<int> \<and> \<bar>P\<bar> + \<bar>C\<bar> \<le> B"
    and "0 \<le> B"
    and "B + (\<Sum>t\<leftarrow>ts. magnitude (proceedsJpy t) + magnitude (costJpy t)) \<le> 2 ^ 53"
    and "forEachGroup ts groups = Inr groups'"
  shows "\<forall>(k, g)\<in>set groups'. \<exists>P C. proceeds (summary g) = Num P \<and> cost (summary g) = Num C
        \<and> gainLoss (summary g) = Num (P - C) \<and> P \<in> \<int> \<and> C \<in> \<int> \<and> \<bar>P\<bar> + \<bar>C\<bar> \<le> 2 ^ 53"
  using assms
proof (induction ts arbitrary: groups B)
  case Nil
  then show ?case by fastforce
next
  case (Cons t ts)
  from Cons.prems(5) obtain mid where a: "addToGroup t groups = Inr mid"
    and r: "forEachGroup ts mid = Inr groups'"
    by (auto split: sum.splits)
  from Cons.prems(1) obtain p c where t: "proceedsJpy t = Num p" "costJpy t = Num c"
    "p \<in> \<int>" "c \<in> \<int>" "gainLossJpy t = proceedsJpy t - costJpy t"
    by auto
  have rest: "0 \<le> (\<Sum>t\<leftarrow>ts. magnitude (proceedsJpy t) + magnitude (costJpy t))"
    by (rule sum_list_nonneg) (auto simp: magnitude_nonneg)
  have b: "B + (\<bar>p\<bar> + \<bar>c\<bar>) \<le> 2 ^ 53" using Cons.prems(4) t(1,2) rest by simp
  have b': "B + (\<bar>p\<bar> + \<bar>c\<bar>) + (\<Sum>t\<leftarrow>ts. magnitude (proceedsJpy t) + magnitude (costJpy t)) \<le> 2 ^ 53"
    using Cons.prems(4) t(1,2) by simp
  have nn: "0 \<le> B + (\<bar>p\<bar> + \<bar>c\<bar>)" using Cons.prems(3) by simp
  have mid: "\<forall>(k, g)\<in>set mid. \<exists>P C. proceeds (summary g) = Num P \<and> cost (summary g) = Num C
        \<and> gainLoss (summary g) = Num (P - C) \<and> P \<in> \<int> \<and> C \<in> \<int>
        \<and> \<bar>P\<bar> + \<bar>C\<bar> \<le> B + (\<bar>p\<bar> + \<bar>c\<bar>)"
    by (rule addToGroup_consistent[OF Cons.prems(2) t Cons.prems(3) b a])
  have tl: "\<forall>t\<in>set ts. \<exists>p c. proceedsJpy t = Num p \<and> costJpy t = Num c \<and> p \<in> \<int> \<and> c \<in> \<int>
        \<and> gainLossJpy t = proceedsJpy t - costJpy t"
    using Cons.prems(1) by simp
  show ?case by (rule Cons.IH[OF tl mid nn b' r])
qed

lemma insertEntry_set: "set (insertEntry cmp x ys) = insert x (set ys)"
  by (induction ys) auto

lemma sortEntries_set: "set (sortEntries cmp entries) = set entries"
  by (induction entries) (simp_all add: sortEntries_def insertEntry_set)

lemma totals_fold_consistent:
  fixes acc :: Totals and f :: "Totals \<Rightarrow> 'd JpyTransaction \<Rightarrow> Totals"
  assumes f: "\<And>acc t. proceeds (f acc t) = proceeds acc + proceedsJpy t
        \<and> cost (f acc t) = cost acc + costJpy t
        \<and> gainLoss (f acc t) = gainLoss acc + gainLossJpy t"
    and "\<forall>t\<in>set ts. \<exists>p c. proceedsJpy t = Num p \<and> costJpy t = Num c \<and> p \<in> \<int> \<and> c \<in> \<int>
        \<and> gainLossJpy t = proceedsJpy t - costJpy t"
    and "\<exists>P C. proceeds acc = Num P \<and> cost acc = Num C \<and> gainLoss acc = Num (P - C)
        \<and> P \<in> \<int> \<and> C \<in> \<int>
        \<and> \<bar>P\<bar> + \<bar>C\<bar> + (\<Sum>t\<leftarrow>ts. magnitude (proceedsJpy t) + magnitude (costJpy t)) \<le> 2 ^ 53"
  shows "\<exists>P C. proceeds (foldl f acc ts) = Num P \<and> cost (foldl f acc ts) = Num C
        \<and> gainLoss (foldl f acc ts) = Num (P - C) \<and> P \<in> \<int> \<and> C \<in> \<int> \<and> \<bar>P\<bar> + \<bar>C\<bar> \<le> 2 ^ 53"
  using assms(2,3)
proof (induction ts arbitrary: acc)
  case Nil
  then show ?case by auto
next
  case (Cons t ts)
  from Cons.prems(1) obtain p c where t: "proceedsJpy t = Num p" "costJpy t = Num c"
    "p \<in> \<int>" "c \<in> \<int>" "gainLossJpy t = proceedsJpy t - costJpy t"
    by auto
  from Cons.prems(2) obtain P C where old: "proceeds acc = Num P" "cost acc = Num C"
    "gainLoss acc = Num (P - C)" "P \<in> \<int>" "C \<in> \<int>"
    and b: "\<bar>P\<bar> + \<bar>C\<bar> + (\<Sum>t\<leftarrow>t # ts. magnitude (proceedsJpy t) + magnitude (costJpy t)) \<le> 2 ^ 53"
    by blast
  have rest: "0 \<le> (\<Sum>t\<leftarrow>ts. magnitude (proceedsJpy t) + magnitude (costJpy t))"
    by (rule sum_list_nonneg) (auto simp: magnitude_nonneg)
  have bound: "\<bar>P\<bar> + \<bar>C\<bar> + (\<bar>p\<bar> + \<bar>c\<bar>) \<le> 2 ^ 53" using b t(1,2) rest by simp
  note step = sums_step[OF old(4,5) t(3,4) bound]
  have b': "\<bar>P + p\<bar> + \<bar>C + c\<bar> + (\<Sum>t\<leftarrow>ts. magnitude (proceedsJpy t) + magnitude (costJpy t)) \<le> 2 ^ 53"
    using b t(1,2) by simp
  have "proceeds (f acc t) = Num (P + p) \<and> cost (f acc t) = Num (C + c)
        \<and> gainLoss (f acc t) = Num ((P + p) - (C + c)) \<and> P + p \<in> \<int> \<and> C + c \<in> \<int>
        \<and> \<bar>P + p\<bar> + \<bar>C + c\<bar> + (\<Sum>t\<leftarrow>ts. magnitude (proceedsJpy t) + magnitude (costJpy t)) \<le> 2 ^ 53"
    using f[of acc t] old t step b' by simp
  then have inv: "\<exists>P C. proceeds (f acc t) = Num P \<and> cost (f acc t) = Num C
        \<and> gainLoss (f acc t) = Num (P - C) \<and> P \<in> \<int> \<and> C \<in> \<int>
        \<and> \<bar>P\<bar> + \<bar>C\<bar> + (\<Sum>t\<leftarrow>ts. magnitude (proceedsJpy t) + magnitude (costJpy t)) \<le> 2 ^ 53"
    by blast
  have tl: "\<forall>t\<in>set ts. \<exists>p c. proceedsJpy t = Num p \<and> costJpy t = Num c \<and> p \<in> \<int> \<and> c \<in> \<int>
        \<and> gainLossJpy t = proceedsJpy t - costJpy t"
    using Cons.prems(1) by simp
  show ?case unfolding foldl_Cons by (rule Cons.IH[OF tl inv])
qed

text \<open>
  C10, as the code has it. Take records that \<open>calculateGainLoss\<close> produced, such that the
  records of the selected year have finite amounts in JPY whose magnitudes, proceeds and
  costs together, add up to at most \<open>2^53\<close>. Then the sums of every symbol group and the
  overall totals are integers \<open>P\<close> and \<open>C\<close>, and the summed gain/loss is the integer
  \<open>P - C\<close>, which is also what the subtraction of the two sums gives in doubles.
\<close>

theorem gainLoss_sums_consistent:
  assumes "calculateGainLoss E rows table = Inr (gainLossData s)"
    and "\<forall>t\<in>set (filteredGainLoss E s). \<exists>p c. proceedsJpy t = Num p \<and> costJpy t = Num c"
    and "(\<Sum>t\<leftarrow>filteredGainLoss E s. magnitude (proceedsJpy t) + magnitude (costJpy t)) \<le> 2 ^ 53"
  shows "(groupedGainLoss E s = Inr groups \<longrightarrow>
        (\<forall>(sym, g)\<in>set groups.
           gainLoss (summary g) = proceeds (summary g) - cost (summary g)
           \<and> (\<exists>P C. P \<in> \<int> \<and> C \<in> \<int> \<and> proceeds (summary g) = Num P \<and> cost (summary g) = Num C
                 \<and> gainLoss (summary g) = Num (P - C))))
     \<and> gainLoss (totalsGainLoss E s) = proceeds (totalsGainLoss E s) - cost (totalsGainLoss E s)
     \<and> (\<exists>P C. P \<in> \<int> \<and> C \<in> \<int> \<and> proceeds (totalsGainLoss E s) = Num P
           \<and> cost (totalsGainLoss E s) = Num C \<and> gainLoss (totalsGainLoss E s) = Num (P - C))"
proof -
  have each: "\<forall>t\<in>set (filteredGainLoss E s). \<exists>p c. proceedsJpy t = Num p \<and> costJpy t = Num c
        \<and> p \<in> \<int> \<and> c \<in> \<int> \<and> gainLossJpy t = proceedsJpy t - costJpy t"
  proof
    fix t assume mem: "t \<in> set (filteredGainLoss E s)"
    then have "t \<in> set (gainLossData s)" by (simp add: filteredGainLoss_def)
    from calculateGainLoss_member[OF assms(1) this] obtain i
      where "gainLossOfRow E table (rows ! i) i = Inr (Some t)" by auto
    from gainLossOfRow_Some[OF this] have
      g: "proceedsJpy t = Math_floor (JpyTransaction.proceedsUsd t * rateSold t)"
        "costJpy t = Math_floor (JpyTransaction.costUsd t * rateAcquired t)"
        "gainLossJpy t = proceedsJpy t - costJpy t"
      by blast+
    from assms(2) mem obtain p c where pc: "proceedsJpy t = Num p" "costJpy t = Num c" by blast
    have "p \<in> \<int>" using g(1) pc(1) Math_floor_Ints[of "JpyTransaction.proceedsUsd t * rateSold t" p] by simp
    moreover have "c \<in> \<int>" using g(2) pc(2) Math_floor_Ints[of "JpyTransaction.costUsd t * rateAcquired t" c] by simp
    ultimately show "\<exists>p c. proceedsJpy t = Num p \<and> costJpy t = Num c
        \<and> p \<in> \<int> \<and> c \<in> \<int> \<and> gainLossJpy t = proceedsJpy t - costJpy t"
      using pc g(3) by blast
  qed
  have fin: "y = x - z \<and> (\<exists>P C. P \<in> \<int> \<and> C \<in> \<int> \<and> x = Num P \<and> z = Num C \<and> y = Num (P - C))"
    if "\<exists>P C. x = Num P \<and> z = Num C \<and> y = Num (P - C) \<and> P \<in> \<int> \<and> C \<in> \<int> \<and> \<bar>P\<bar> + \<bar>C\<bar> \<le> 2 ^ 53"
    for x y z :: number
  proof -
    from that obtain P C where v: "x = Num P" "z = Num C" "y = Num (P - C)" "P \<in> \<int>" "C \<in> \<int>"
      and b: "\<bar>P\<bar> + \<bar>C\<bar> \<le> 2 ^ 53" by blast
    have "Num P - Num C = Num (P - C)"
      using v(4,5) by (rule minus_exact) (use b in linarith)
    then show ?thesis using v by auto
  qed
  have grouped: "\<forall>(sym, g)\<in>set groups.
           gainLoss (summary g) = proceeds (summary g) - cost (summary g)
           \<and> (\<exists>P C. P \<in> \<int> \<and> C \<in> \<int> \<and> proceeds (summary g) = Num P \<and> cost (summary g) = Num C
                 \<and> gainLoss (summary g) = Num (P - C))"
    if "groupedGainLoss E s = Inr groups"
  proof -
    from that obtain unsorted where u: "forEachGroup (filteredGainLoss E s) [] = Inr unsorted"
      and g: "groups = sortEntries (localeCompare E) unsorted"
      by (auto simp: groupedGainLoss_def split: sum.splits)
    have "\<forall>(k, g)\<in>set unsorted. \<exists>P C. proceeds (summary g) = Num P \<and> cost (summary g) = Num C
        \<and> gainLoss (summary g) = Num (P - C) \<and> P \<in> \<int> \<and> C \<in> \<int> \<and> \<bar>P\<bar> + \<bar>C\<bar> \<le> 2 ^ 53"
      by (rule forEachGroup_consistent[OF each, where B = 0 and groups = "[]"])
        (use assms(3) u in simp_all)
    then show ?thesis using fin unfolding g sortEntries_set by fast
  qed
  have zero: "(0 :: number) = Num 0" by (simp add: zero_number_def)
  have "\<exists>P C. proceeds (totalsGainLoss E s) = Num P \<and> cost (totalsGainLoss E s) = Num C
        \<and> gainLoss (totalsGainLoss E s) = Num (P - C) \<and> P \<in> \<int> \<and> C \<in> \<int> \<and> \<bar>P\<bar> + \<bar>C\<bar> \<le> 2 ^ 53"
    unfolding totalsGainLoss_def
  proof (rule totals_fold_consistent[OF _ each])
    show "\<exists>P C. proceeds \<lparr>proceeds = 0, cost = 0, gainLoss = 0, proceedsUsd = 0, costUsd = 0,
            gainLossUsd = 0, wsDisallowed = 0, count = 0\<rparr> = Num P
        \<and> cost \<lparr>proceeds = 0, cost = 0, gainLoss = 0, proceedsUsd = 0, costUsd = 0,
            gainLossUsd = 0, wsDisallowed = 0, count = 0\<rparr> = Num C
        \<and> gainLoss \<lparr>proceeds = 0, cost = 0, gainLoss = 0, proceedsUsd = 0, costUsd = 0,
            gainLossUsd = 0, wsDisallowed = 0, count = 0\<rparr> = Num (P - C)
        \<and> P \<in> \<int> \<and> C \<in> \<int>
        \<and> \<bar>P\<bar> + \<bar>C\<bar>
            + (\<Sum>t\<leftarrow>filteredGainLoss E s. magnitude (proceedsJpy t) + magnitude (costJpy t)) \<le> 2 ^ 53"
      by (rule exI[of _ 0], rule exI[of _ 0]) (use assms(3) zero in simp)
  qed simp
  then have total: "gainLoss (totalsGainLoss E s) = proceeds (totalsGainLoss E s) - cost (totalsGainLoss E s)
     \<and> (\<exists>P C. P \<in> \<int> \<and> C \<in> \<int> \<and> proceeds (totalsGainLoss E s) = Num P
           \<and> cost (totalsGainLoss E s) = Num C \<and> gainLoss (totalsGainLoss E s) = Num (P - C))"
    by (rule fin)
  show ?thesis using grouped total by blast
qed

lemma exampleState_sums:
  "map_sum (\<lambda>e. e)
     (map (\<lambda>(sym, g). (sym, proceeds (summary g), cost (summary g), gainLoss (summary g),
        map JpyTransaction.id (transactions g))))
     (groupedGainLoss refExterns exampleState)
   = Inr [(''AAPL'', Num 211401, Num 131302, Num 80099, [0, 2]),
          (''MSFT'', Num 126000, Num 84000, Num 42000, [1])]
   \<and> (proceeds (totalsGainLoss refExterns exampleState),
       cost (totalsGainLoss refExterns exampleState),
       gainLoss (totalsGainLoss refExterns exampleState),
       count (totalsGainLoss refExterns exampleState))
     = (Num 337401, Num 215302, Num 122099, 3)
   \<and> (\<forall>t\<in>set (filteredGainLoss refExterns exampleState).
         \<exists>p c. proceedsJpy t = Num p \<and> costJpy t = Num c)
   \<and> (\<Sum>t\<leftarrow>filteredGainLoss refExterns exampleState.
         magnitude (proceedsJpy t) + magnitude (costJpy t)) = 552703"
proof -
  obtain a b c d where data: "gainLossData exampleState = [a, b, c, d]"
    and f: "(JpyTransaction.id a, JpyTransaction.symbol a, dateSold a, proceedsJpy a, costJpy a, gainLossJpy a)
          = (0, Some ''AAPL'', Date 2023 3 4, Num 210000, Num 130000, Num 80000)"
      "(JpyTransaction.id b, JpyTransaction.symbol b, dateSold b, proceedsJpy b, costJpy b, gainLossJpy b)
          = (1, Some ''MSFT'', Date 2023 3 4, Num 126000, Num 84000, Num 42000)"
      "(JpyTransaction.id c, JpyTransaction.symbol c, dateSold c, proceedsJpy c, costJpy c, gainLossJpy c)
          = (2, Some ''AAPL'', Date 2023 3 4, Num 1401, Num 1302, Num 99)"
      "(JpyTransaction.id d, JpyTransaction.symbol d, dateSold d, proceedsJpy d, costJpy d, gainLossJpy d)
          = (3, Some ''MSFT'', Date 2022 12 30, Num 53000, Num 66250, Num (- 13250))"
    using exampleState_fields by (auto simp: map_eq_Cons_conv)
  have view: "filteredGainLoss refExterns exampleState = [a, b, c]"
    unfolding filteredGainLoss_def exampleState_year data using f by (simp add: refExterns_def)
  have sums: "map_sum (\<lambda>e. e)
     (map (\<lambda>(sym, g). (sym, proceeds (summary g), cost (summary g), gainLoss (summary g),
        map JpyTransaction.id (transactions g))))
     (groupedGainLoss refExterns exampleState)
   = Inr [(''AAPL'', Num 211401, Num 131302, Num 80099, [0, 2]),
          (''MSFT'', Num 126000, Num 84000, Num 42000, [1])]
   \<and> (proceeds (totalsGainLoss refExterns exampleState),
       cost (totalsGainLoss refExterns exampleState),
       gainLoss (totalsGainLoss refExterns exampleState),
       count (totalsGainLoss refExterns exampleState))
     = (Num 337401, Num 215302, Num 122099, 3)"
    unfolding groupedGainLoss_def totalsGainLoss_def view using f
    by (simp add: addToGroup_def toString_def objectPrototypeKeys_def Let_def sortEntries_def
        refExterns_def zero_number_def double_eval)
  have hyp: "(\<forall>t\<in>set (filteredGainLoss refExterns exampleState).
         \<exists>p c. proceedsJpy t = Num p \<and> costJpy t = Num c)
   \<and> (\<Sum>t\<leftarrow>filteredGainLoss refExterns exampleState.
         magnitude (proceedsJpy t) + magnitude (costJpy t)) = 552703"
    unfolding view using f by simp
  show ?thesis using sums hyp by blast
qed

text \<open>
  The example state in the year 2023: two AAPL records and one MSFT record, the record of
  2022 left out; the amounts add up to 552703.
\<close>

theorem gainLoss_sums_consistent_witness:
  "map_sum (\<lambda>e. e)
     (map (\<lambda>(sym, g). (sym, proceeds (summary g), cost (summary g), gainLoss (summary g),
        proceeds (summary g) - cost (summary g))))
     (groupedGainLoss refExterns exampleState)
   = Inr [(''AAPL'', Num 211401, Num 131302, Num 80099, Num 80099),
          (''MSFT'', Num 126000, Num 84000, Num 42000, Num 42000)]
   \<and> (proceeds (totalsGainLoss refExterns exampleState),
       cost (totalsGainLoss refExterns exampleState),
       gainLoss (totalsGainLoss refExterns exampleState),
       proceeds (totalsGainLoss refExterns exampleState)
         - cost (totalsGainLoss refExterns exampleState))
     = (Num 337401, Num 215302, Num 122099, Num 122099)
   \<and> (\<Sum>t\<leftarrow>filteredGainLoss refExterns exampleState.
         magnitude (proceedsJpy t) + magnitude (costJpy t)) = 552703
   \<and> (552703 :: real) \<le> 2 ^ 53"
proof -
  obtain groups where g: "groupedGainLoss refExterns exampleState = Inr groups"
    and v: "map (\<lambda>(sym, g). (sym, proceeds (summary g), cost (summary g), gainLoss (summary g),
        map JpyTransaction.id (transactions g))) groups
      = [(''AAPL'', Num 211401, Num 131302, Num 80099, [0, 2]),
         (''MSFT'', Num 126000, Num 84000, Num 42000, [1])]"
    using exampleState_sums[THEN conjunct1] by (rule map_sum_Inr)
  have finite: "\<forall>t\<in>set (filteredGainLoss refExterns exampleState).
         \<exists>p c. proceedsJpy t = Num p \<and> costJpy t = Num c"
    using exampleState_sums by blast
  have volume: "(\<Sum>t\<leftarrow>filteredGainLoss refExterns exampleState.
         magnitude (proceedsJpy t) + magnitude (costJpy t)) = 552703"
    using exampleState_sums by blast
  then have small: "(\<Sum>t\<leftarrow>filteredGainLoss refExterns exampleState.
         magnitude (proceedsJpy t) + magnitude (costJpy t)) \<le> 2 ^ 53"
    by simp
  note sums = gainLoss_sums_consistent[OF exampleState_data finite small, of groups]
  have each: "\<forall>(sym, g)\<in>set groups. gainLoss (summary g) = proceeds (summary g) - cost (summary g)"
    using sums g by fast
  have tot: "gainLoss (totalsGainLoss refExterns exampleState)
       = proceeds (totalsGainLoss refExterns exampleState)
         - cost (totalsGainLoss refExterns exampleState)"
    using sums by blast
  have "map (\<lambda>(sym, g). (sym, proceeds (summary g), cost (summary g), gainLoss (summary g),
        proceeds (summary g) - cost (summary g))) groups
      = [(''AAPL'', Num 211401, Num 131302, Num 80099, Num 80099),
         (''MSFT'', Num 126000, Num 84000, Num 42000, Num 42000)]"
    using v each by (auto simp: map_eq_Cons_conv)
  moreover have tv: "(proceeds (totalsGainLoss refExterns exampleState),
       cost (totalsGainLoss refExterns exampleState),
       gainLoss (totalsGainLoss refExterns exampleState),
       count (totalsGainLoss refExterns exampleState))
     = (Num 337401, Num 215302, Num 122099, 3)"
    using exampleState_sums by blast
  moreover have "proceeds (totalsGainLoss refExterns exampleState)
         - cost (totalsGainLoss refExterns exampleState) = Num 122099"
    using tot[symmetric] tv by simp
  ultimately show ?thesis
    using g volume by simp
qed

text \<open>
  C10 as the spec states it fails: two rows of one symbol at the rate 100. The summed
  proceeds are 9007199254740994 and the summed cost is 2, both exact, and the summed
  gain/loss is 9007199254740991, not 9007199254740992: the gain/loss of the first record
  was rounded from 9007199254740993 to 9007199254740992.
\<close>

theorem gainLoss_sums_rounded:
  "map_sum (\<lambda>e. e)
     (map (\<lambda>(sym, g). (sym, proceeds (summary g), cost (summary g), gainLoss (summary g),
        proceeds (summary g) - cost (summary g))))
     (groupedGainLoss refExterns largeState)
   = Inr [(''AAPL'', Num 9007199254740994, Num 2, Num 9007199254740991, Num 9007199254740992)]
   \<and> (proceeds (totalsGainLoss refExterns largeState),
       cost (totalsGainLoss refExterns largeState),
       gainLoss (totalsGainLoss refExterns largeState),
       proceeds (totalsGainLoss refExterns largeState)
         - cost (totalsGainLoss refExterns largeState))
     = (Num 9007199254740994, Num 2, Num 9007199254740991, Num 9007199254740992)
   \<and> map (\<lambda>t. (proceedsJpy t, costJpy t, gainLossJpy t)) (gainLossData largeState)
     = [(Num 9007199254740994, Num 1, Num 9007199254740992), (Num 0, Num 1, Num (- 1))]"
proof -
  have calc: "map_sum (\<lambda>e. e)
      (map (\<lambda>t. (JpyTransaction.symbol t, dateSold t, proceedsJpy t, costJpy t, gainLossJpy t)))
      (calculateGainLoss refExterns [rowHuge, rowCostOnly] rates100)
    = Inr [(Some ''AAPL'', Date 2023 3 4, Num 9007199254740994, Num 1, Num 9007199254740992),
           (Some ''AAPL'', Date 2023 3 4, Num 0, Num 1, Num (- 1))]"
    by (simp add: calc_eval ref_eval rowHuge_def rowCostOnly_def rates100_def)
  then obtain ts where c: "calculateGainLoss refExterns [rowHuge, rowCostOnly] rates100 = Inr ts"
    and m: "map (\<lambda>t. (JpyTransaction.symbol t, dateSold t, proceedsJpy t, costJpy t, gainLossJpy t)) ts
      = [(Some ''AAPL'', Date 2023 3 4, Num 9007199254740994, Num 1, Num 9007199254740992),
         (Some ''AAPL'', Date 2023 3 4, Num 0, Num 1, Num (- 1))]"
    by (rule map_sum_Inr)
  from m obtain a b where ts: "ts = [a, b]"
    and f: "(JpyTransaction.symbol a, dateSold a, proceedsJpy a, costJpy a, gainLossJpy a)
          = (Some ''AAPL'', Date 2023 3 4, Num 9007199254740994, Num 1, Num 9007199254740992)"
      "(JpyTransaction.symbol b, dateSold b, proceedsJpy b, costJpy b, gainLossJpy b)
          = (Some ''AAPL'', Date 2023 3 4, Num 0, Num 1, Num (- 1))"
    by (auto simp: map_eq_Cons_conv)
  have data: "gainLossData largeState = [a, b]"
    by (simp add: largeState_def c ts)
  have year: "selectedYear largeState = Num 2023"
    by (simp add: largeState_def initialState_def)
  have view: "filteredGainLoss refExterns largeState = [a, b]"
    unfolding filteredGainLoss_def year data using f by (simp add: refExterns_def)
  show ?thesis
    unfolding groupedGainLoss_def totalsGainLoss_def view data using f
    by (simp add: addToGroup_def toString_def objectPrototypeKeys_def Let_def sortEntries_def
        refExterns_def zero_number_def double_eval)
qed

end
